theory Spec2Isabelle
  imports Complex_Main "HOL-Library.Multiset"
begin

section \<open>The check_load plugin: data model\<close>

text \<open>
  The development embeds \<^verbatim>\<open>plugins/check_load.c\<close>. A C \<^verbatim>\<open>double\<close> is
  modelled as a real number: the properties below depend on comparisons and on the order
  of the stores only, never on rounding. The three-element arrays \<^verbatim>\<open>wload\<close>,
  \<^verbatim>\<open>cload\<close>, \<^verbatim>\<open>la\<close> and \<^verbatim>\<open>scaled_la\<close> are triples; every index the
  program uses on them is below 3.
\<close>

type_synonym triplet = "real \<times> real \<times> real"

definition nth3 :: "triplet \<Rightarrow> nat \<Rightarrow> real" where
  "nth3 t i = (case t of (a, b, c) \<Rightarrow> if i = 0 then a else if i = 1 then b else c)"

definition upd3 :: "triplet \<Rightarrow> nat \<Rightarrow> real \<Rightarrow> triplet" where
  "upd3 t i v =
     (case t of (a, b, c) \<Rightarrow>
        if i = 0 then (v, b, c) else if i = 1 then (a, v, c)
        else if i = 2 then (a, b, v) else (a, b, c))"

text \<open>
  Modelled from the spec: the return codes of \<^verbatim>\<open>common.h\<close>, which is not among
  the sources at hand. Their values are the exit codes of the specification (0 = OK,
  1 = WARNING, 2 = CRITICAL, 3 = UNKNOWN); \<^verbatim>\<open>OK\<close> and \<^verbatim>\<open>ERROR\<close>, the
  return values of \<^verbatim>\<open>process_arguments\<close>, are 0 and -1.
\<close>

definition STATE_OK :: int where "STATE_OK = 0"
definition STATE_WARNING :: int where "STATE_WARNING = 1"
definition STATE_CRITICAL :: int where "STATE_CRITICAL = 2"
definition STATE_UNKNOWN :: int where "STATE_UNKNOWN = 3"
definition OK :: int where "OK = 0"
definition ERROR :: int where "ERROR = -1"

text \<open>\<^verbatim>\<open>static const int nums[3] = { 1, 5, 15 }\<close>\<close>

definition nums :: "nat \<Rightarrow> int" where
  "nums i = (if i = 0 then 1 else if i = 1 then 5 else 15)"

text \<open>
  What a run does to the outside is recorded as a list of events, in program order:
  the calls it makes to the system, and what it prints. Formatted numbers are kept as
  numbers (the \<^verbatim>\<open>%.2f\<close> and \<^verbatim>\<open>%.3f\<close> renderings are not modelled).
\<close>

datatype event =
    Call_getloadavg
  | Call_uptime
  | Call_number_of_cpus
  | Call_ps
  | Usage string
  | Usage4 string
  | Usage5
  | Print_revision
  | Print_help
  | Die string int
  | Printf string
  | Status_line int triplet "triplet option"
  | Perfdata string int real "(real \<times> real) option"
  | Newline
  | Process_line string
  | Stderr string

text \<open>
  A function of the program either ends the process, with an exit code and after the
  events so far, or it returns. One more outcome stands for a read of \<^verbatim>\<open>argv\<close>
  past its end, which C leaves undefined.
\<close>

datatype 'a outcome =
    Exits int "event list"
  | Returns 'a
  | Out_of_bounds

text \<open>
  Modelled from the spec: \<^verbatim>\<open>usage\<close>, \<^verbatim>\<open>usage4\<close>, \<^verbatim>\<open>usage5\<close> and
  \<^verbatim>\<open>die\<close> of \<^verbatim>\<open>utils.c\<close>, which is not among the sources at hand. Each prints
  a diagnostic and ends the process: the first three with the exit code UNKNOWN (a
  malformed threshold and unparsable arguments are fatal, with UNKNOWN), \<^verbatim>\<open>die\<close>
  with the code it is given. The third argument of \<open>die\<close> is the number that its
  format prints.
\<close>

definition usage :: "string \<Rightarrow> 'a outcome" where
  "usage msg = Exits STATE_UNKNOWN [Usage msg]"

definition usage4 :: "string \<Rightarrow> 'a outcome" where
  "usage4 msg = Exits STATE_UNKNOWN [Usage4 msg]"

definition usage5 :: "'a outcome" where
  "usage5 = Exits STATE_UNKNOWN [Usage5]"

definition die :: "int \<Rightarrow> string \<Rightarrow> int \<Rightarrow> 'a outcome" where
  "die code msg n = Exits code [Die msg n]"

text \<open>The global variables of the file, with their initial values.\<close>

record globals =
  wload :: triplet
  cload :: triplet
  take_into_account_cpus :: bool
  n_procs_to_show :: int

definition initial_globals :: globals where
  "initial_globals =
     \<lparr>wload = (0, 0, 0), cload = (0, 0, 0),
      take_into_account_cpus = False, n_procs_to_show = 0\<rparr>"

section \<open>The C library, as far as the program uses it\<close>

text \<open>
  The library functions are parameters of the model. \<^verbatim>\<open>strtod\<close> maps the string
  at \<^verbatim>\<open>str\<close> to the converted value and the number of characters consumed
  (\<^verbatim>\<open>p - str\<close>; 0 when no conversion was performed, and then the value is 0).
  \<^verbatim>\<open>getopt_long\<close> is called until it returns -1: from the option string, the
  table of long options (name, whether an argument is required, value returned) and
  \<^verbatim>\<open>argv\<close>, the model gives the options it returns in order, each with its
  \<^verbatim>\<open>optarg\<close>, then the final \<^verbatim>\<open>optind\<close> and the permuted \<^verbatim>\<open>argv\<close>.
  \<^verbatim>\<open>scan_procpcpu\<close> is \<^verbatim>\<open>sscanf\<close> with the macros \<^verbatim>\<open>PS_FORMAT\<close> and
  \<^verbatim>\<open>PS_VARLIST\<close> of the build: the value stored into \<^verbatim>\<open>procpcpu\<close>, or nothing
  when the scan stops before that field. The two flags say which branches of the
  conditional compilation the build has.
\<close>

record platform =
  HAVE_GETLOADAVG :: bool
  PS_USES_PROCPCPU :: bool
  strtod :: "string \<Rightarrow> real \<times> nat"
  atoi :: "string \<Rightarrow> int"
  getopt_long :: "string \<Rightarrow> (string \<times> bool \<times> char) list \<Rightarrow> string list
                    \<Rightarrow> (char \<times> string) list \<times> nat \<times> string list"
  qsort :: "(string \<Rightarrow> string \<Rightarrow> int) \<Rightarrow> string list \<Rightarrow> string list"
  scan_procpcpu :: "string \<Rightarrow> real option"

subsection \<open>A concrete library for running the model\<close>

definition isspace :: "char \<Rightarrow> bool" where
  "isspace c = ((of_char c :: nat) = 32 \<or> (9 \<le> (of_char c :: nat) \<and> (of_char c :: nat) \<le> 13))"

definition isdigit :: "char \<Rightarrow> bool" where
  "isdigit c = (48 \<le> (of_char c :: nat) \<and> (of_char c :: nat) \<le> 57)"

definition decimal :: "string \<Rightarrow> nat" where
  "decimal ds = foldl (\<lambda>a c. 10 * a + ((of_char c :: nat) - 48)) 0 ds"

text \<open>
  The decimal part of \<^verbatim>\<open>strtod\<close> in the POSIX locale: optional white space, an
  optional sign, digits with an optional fraction. Exponents, hexadecimal numbers,
  infinities and NaN are left out.
\<close>

definition strtod_decimal :: "string \<Rightarrow> real \<times> nat" where
  "strtod_decimal s =
     (let ws = takeWhile isspace s;
          s1 = dropWhile isspace s;
          sg = (if s1 \<noteq> [] \<and> (hd s1 = CHR ''-'' \<or> hd s1 = CHR ''+'') then 1 else 0);
          neg = (sg = 1 \<and> hd s1 = CHR ''-'');
          s2 = drop sg s1;
          ip = takeWhile isdigit s2;
          s3 = dropWhile isdigit s2;
          dot = (s3 \<noteq> [] \<and> hd s3 = CHR ''.'');
          fp = (if dot then takeWhile isdigit (tl s3) else []);
          m = real (decimal ip) + real (decimal fp) / 10 ^ length fp
      in if ip = [] \<and> fp = [] then (0, 0)
         else (if neg then - m else m,
               length ws + sg + length ip + (if dot then 1 + length fp else 0)))"

text \<open>\<^verbatim>\<open>atoi\<close> on decimal input; a value outside the range of \<^verbatim>\<open>int\<close> is not modelled.\<close>

definition atoi_decimal :: "string \<Rightarrow> int" where
  "atoi_decimal s =
     (let s1 = dropWhile isspace s;
          sg = (if s1 \<noteq> [] \<and> (hd s1 = CHR ''-'' \<or> hd s1 = CHR ''+'') then 1 else 0);
          neg = (sg = 1 \<and> hd s1 = CHR ''-'');
          v = int (decimal (takeWhile isdigit (drop sg s1)))
      in if neg then - v else v)"

text \<open>
  GNU \<^verbatim>\<open>getopt_long\<close> in its default, permuting mode, for an option string that does
  not start with a colon: clustered short options, an argument attached to its option or
  in the next element, long options by exact name or unambiguous prefix with
  \<^verbatim>\<open>=value\<close> or the next element as argument, \<^verbatim>\<open>--\<close> as terminator, and
  \<^verbatim>\<open>?\<close> for an unknown option or a missing argument. \<open>short_lookup\<close> tells whether
  a short option exists and, if so, whether it takes an argument.
\<close>

fun short_lookup :: "string \<Rightarrow> char \<Rightarrow> bool option" where
  "short_lookup [] ch = None"
| "short_lookup (c # cs) ch =
     (if c = ch \<and> ch \<noteq> CHR '':'' then Some (cs \<noteq> [] \<and> hd cs = CHR '':'')
      else short_lookup cs ch)"

text \<open>
  One element of short options: the options it yields, and the option still waiting for
  its argument in the next element, if any.
\<close>

fun short_cluster :: "string \<Rightarrow> string \<Rightarrow> (char \<times> string) list \<times> char option" where
  "short_cluster os [] = ([], None)"
| "short_cluster os (ch # cl) =
     (case short_lookup os ch of
        None \<Rightarrow> (case short_cluster os cl of (es, pend) \<Rightarrow> ((CHR ''?'', []) # es, pend))
      | Some False \<Rightarrow> (case short_cluster os cl of (es, pend) \<Rightarrow> ((ch, []) # es, pend))
      | Some True \<Rightarrow> if cl \<noteq> [] then ([(ch, cl)], None) else ([], Some ch))"

definition long_option ::
  "(string \<times> bool \<times> char) list \<Rightarrow> string \<Rightarrow> (char \<times> string) list \<times> char option" where
  "long_option lo body =
     (let name = takeWhile (\<lambda>c. c \<noteq> CHR ''='') body;
          has_eq = (length name < length body);
          val = drop (length name + 1) body;
          exact = filter (\<lambda>e. fst e = name) lo;
          abbrev = filter (\<lambda>e. take (length name) (fst e) = name) lo;
          found = (if exact \<noteq> [] then exact else abbrev)
      in case found of
           [(n, req, v)] \<Rightarrow>
             if req then (if has_eq then ([(v, val)], None) else ([], Some v))
             else (if has_eq then ([(CHR ''?'', [])], None) else ([(v, [])], None))
         | _ \<Rightarrow> ([(CHR ''?'', [])], None))"

text \<open>
  The scan of \<^verbatim>\<open>argv[1..]\<close>: the options returned, the elements consumed as options
  or option arguments, and the non-options, each in order.
\<close>

fun getopt_scan ::
  "string \<Rightarrow> (string \<times> bool \<times> char) list \<Rightarrow> char option \<Rightarrow> string list
     \<Rightarrow> (char \<times> string) list \<times> string list \<times> string list" where
  "getopt_scan os lo None [] = ([], [], [])"
| "getopt_scan os lo (Some ch) [] = ([(CHR ''?'', [])], [], [])"
| "getopt_scan os lo (Some ch) (a # rest) =
     (case getopt_scan os lo None rest of (es, used, ns) \<Rightarrow> ((ch, a) # es, a # used, ns))"
| "getopt_scan os lo None (a # rest) =
     (if a = ''--'' then ([], [a], rest)
      else if take 2 a = ''--'' then
        (case long_option lo (drop 2 a) of (ev, pend) \<Rightarrow>
           (case getopt_scan os lo pend rest of (es, used, ns) \<Rightarrow> (ev @ es, a # used, ns)))
      else if 1 < length a \<and> hd a = CHR ''-'' then
        (case short_cluster os (tl a) of (ev, pend) \<Rightarrow>
           (case getopt_scan os lo pend rest of (es, used, ns) \<Rightarrow> (ev @ es, a # used, ns)))
      else
        (case getopt_scan os lo None rest of (es, used, ns) \<Rightarrow> (es, used, a # ns)))"

definition gnu_getopt_long ::
  "string \<Rightarrow> (string \<times> bool \<times> char) list \<Rightarrow> string list
     \<Rightarrow> (char \<times> string) list \<times> nat \<times> string list" where
  "gnu_getopt_long os lo argv =
     (case getopt_scan os lo None (tl argv) of
        (es, used, ns) \<Rightarrow> (es, 1 + length used, take 1 argv @ used @ ns))"

text \<open>
  \<^verbatim>\<open>qsort\<close> as an insertion sort driven by the comparison function; an element goes
  before the first one it does not compare greater than.
\<close>

fun insert_by :: "('a \<Rightarrow> 'a \<Rightarrow> int) \<Rightarrow> 'a \<Rightarrow> 'a list \<Rightarrow> 'a list" where
  "insert_by cmp x [] = [x]"
| "insert_by cmp x (y # ys) = (if cmp x y \<le> 0 then x # y # ys else y # insert_by cmp x ys)"

definition insertion_qsort :: "('a \<Rightarrow> 'a \<Rightarrow> int) \<Rightarrow> 'a list \<Rightarrow> 'a list" where
  "insertion_qsort cmp xs = foldr (insert_by cmp) xs []"

text \<open>
  A \<^verbatim>\<open>ps\<close> line format whose seventh column is the CPU share: the scan reaches that
  column when the five columns before it begin with integers, and converts it with
  \<^verbatim>\<open>strtod\<close>'s rules.
\<close>

fun columns :: "string \<Rightarrow> string \<Rightarrow> string list" where
  "columns [] cur = (if cur = [] then [] else [cur])"
| "columns (c # cs) cur =
     (if isspace c then (if cur = [] then columns cs [] else cur # columns cs [])
      else columns cs (cur @ [c]))"

definition starts_with_int :: "string \<Rightarrow> bool" where
  "starts_with_int s =
     (let sg = (if s \<noteq> [] \<and> (hd s = CHR ''-'' \<or> hd s = CHR ''+'') then 1 else 0)
      in takeWhile isdigit (drop sg s) \<noteq> [])"

definition seventh_column_pcpu :: "string \<Rightarrow> real option" where
  "seventh_column_pcpu s =
     (let cs = columns s []
      in if 7 \<le> length cs \<and> list_all starts_with_int (take 5 (drop 1 cs))
            \<and> snd (strtod_decimal (cs ! 6)) \<noteq> 0
         then Some (fst (strtod_decimal (cs ! 6))) else None)"

definition posix_platform :: platform where
  "posix_platform =
     \<lparr>HAVE_GETLOADAVG = True, PS_USES_PROCPCPU = True,
      strtod = strtod_decimal, atoi = atoi_decimal, getopt_long = gnu_getopt_long,
      qsort = insertion_qsort, scan_procpcpu = seventh_column_pcpu\<rparr>"

definition uptime_platform :: platform where
  "uptime_platform = posix_platform\<lparr>HAVE_GETLOADAVG := False, PS_USES_PROCPCPU := False\<rparr>"

section \<open>get_threshold\<close>

text \<open>
  The loop of \<^verbatim>\<open>get_threshold\<close>. \<open>str\<close> is the offset \<^verbatim>\<open>str - arg\<close>, so
  that \<open>drop str arg\<close> is the string \<^verbatim>\<open>strtod\<close> reads. The result is the value of
  \<^verbatim>\<open>i\<close> when the loop is left, \<^verbatim>\<open>valid\<close>, and the array.
\<close>

function get_threshold_loop ::
  "(string \<Rightarrow> real \<times> nat) \<Rightarrow> string \<Rightarrow> nat \<Rightarrow> nat \<Rightarrow> bool \<Rightarrow> triplet \<Rightarrow> nat \<times> bool \<times> triplet"
where
  "get_threshold_loop sd arg i str valid th =
     (if i < 3 then
        (let r = sd (drop str arg);
             th1 = upd3 th i (fst r);
             p = str + snd r
         in if p = str then (i, valid, th1)
            else (let str1 = p + 1
                  in if length arg \<le> str1 then (i, True, th1)
                     else get_threshold_loop sd arg (i + 1) str1 True th1))
      else (i, valid, th))"
  by pat_completeness auto
termination
  by (relation "measure (\<lambda>(sd, arg, i, str, valid, th). 3 - i)") auto

text \<open>\<^verbatim>\<open>for(n = i; n < 3; n++) th[n] = th[i];\<close>\<close>

function fill_from :: "triplet \<Rightarrow> nat \<Rightarrow> nat \<Rightarrow> triplet" where
  "fill_from th i n = (if n < 3 then fill_from (upd3 th n (nth3 th i)) i (n + 1) else th)"
  by pat_completeness auto
termination
  by (relation "measure (\<lambda>(th, i, n). 3 - n)") auto

definition get_threshold :: "(string \<Rightarrow> real \<times> nat) \<Rightarrow> string \<Rightarrow> triplet \<Rightarrow> triplet outcome" where
  "get_threshold sd arg th =
     (case get_threshold_loop sd arg 0 0 False th of
        (i, valid, th1) \<Rightarrow>
          if i = 0 \<and> \<not> valid
          then usage ''Warning threshold must be float or float triplet!''
          else if i \<noteq> 2 then Returns (fill_from th1 i i)
          else Returns th1)"


section \<open>Argument processing\<close>

text \<open>
  Sequencing: the rest of a function runs only when the call before it returned.
\<close>

fun bind_outcome :: "'a outcome \<Rightarrow> ('a \<Rightarrow> 'b outcome) \<Rightarrow> 'b outcome" where
  "bind_outcome (Exits code out) f = Exits code out"
| "bind_outcome (Returns x) f = f x"
| "bind_outcome Out_of_bounds f = Out_of_bounds"

text \<open>
  \<^verbatim>\<open>validate_arguments\<close>: the loop over the three windows, each with its three checks
  in the order of the source. Messages are kept without their inner quotation marks and
  final newline.
\<close>

function validate_loop :: "globals \<Rightarrow> nat \<Rightarrow> int outcome" where
  "validate_loop g i =
     (if i < 3 then
        (if nth3 (cload g) i < 0 then
           die STATE_UNKNOWN
             ''Critical threshold for %d-minute load average is not specified'' (nums i)
         else if nth3 (wload g) i < 0 then
           die STATE_UNKNOWN
             ''Warning threshold for %d-minute load average is not specified'' (nums i)
         else if nth3 (wload g) i > nth3 (cload g) i then
           die STATE_UNKNOWN
             ''Parameter inconsistency: %d-minute warning load is greater than critical load''
             (nums i)
         else validate_loop g (i + 1))
      else Returns OK)"
  by pat_completeness auto
termination
  by (relation "measure (\<lambda>(g, i). 3 - i)") auto

definition validate_arguments :: "globals \<Rightarrow> int outcome" where
  "validate_arguments g = validate_loop g 0"

text \<open>The option string and the table \<^verbatim>\<open>longopts\<close> of \<^verbatim>\<open>process_arguments\<close>.\<close>

definition optstring :: string where
  "optstring = ''Vhrc:w:n:''"

definition longopts :: "(string \<times> bool \<times> char) list" where
  "longopts =
     [(''warning'', True, CHR ''w''),
      (''critical'', True, CHR ''c''),
      (''percpu'', False, CHR ''r''),
      (''version'', False, CHR ''V''),
      (''help'', False, CHR ''h''),
      (''procs-to-show'', True, CHR ''n'')]"

text \<open>
  The \<^verbatim>\<open>while (1)\<close> loop with its \<^verbatim>\<open>switch\<close>, over the options that
  \<^verbatim>\<open>getopt_long\<close> returns; the loop ends when they are exhausted (\<^verbatim>\<open>c == -1\<close>).
  A value with no \<^verbatim>\<open>case\<close> changes nothing.
\<close>

fun option_loop :: "platform \<Rightarrow> (char \<times> string) list \<Rightarrow> globals \<Rightarrow> globals outcome" where
  "option_loop pf [] g = Returns g"
| "option_loop pf ((c, optarg) # rest) g =
     (if c = CHR ''w'' then
        bind_outcome (get_threshold (strtod pf) optarg (wload g))
          (\<lambda>th. option_loop pf rest (g\<lparr>wload := th\<rparr>))
      else if c = CHR ''c'' then
        bind_outcome (get_threshold (strtod pf) optarg (cload g))
          (\<lambda>th. option_loop pf rest (g\<lparr>cload := th\<rparr>))
      else if c = CHR ''r'' then option_loop pf rest (g\<lparr>take_into_account_cpus := True\<rparr>)
      else if c = CHR ''V'' then Exits STATE_UNKNOWN [Print_revision]
      else if c = CHR ''h'' then Exits STATE_UNKNOWN [Print_help]
      else if c = CHR ''n'' then option_loop pf rest (g\<lparr>n_procs_to_show := atoi pf optarg\<rparr>)
      else if c = CHR ''?'' then usage5
      else option_loop pf rest g)"

text \<open>\<^verbatim>\<open>argv[c]\<close>, for an index \<^verbatim>\<open>c\<close> of type \<^verbatim>\<open>int\<close>.\<close>

definition argv_at :: "string list \<Rightarrow> int \<Rightarrow> string outcome" where
  "argv_at argv c = (if 0 \<le> c \<and> c < int (length argv) then Returns (argv ! nat c) else Out_of_bounds)"

definition process_arguments :: "platform \<Rightarrow> string list \<Rightarrow> globals \<Rightarrow> (int \<times> globals) outcome" where
  "process_arguments pf argv g =
     (let argc = int (length argv)
      in if argc < 2 then Returns (ERROR, g)
         else
           (case getopt_long pf optstring longopts argv of
              (opts, optind, argv1) \<Rightarrow>
                bind_outcome (option_loop pf opts g)
                  (\<lambda>g1.
                     let c = int optind
                     in if c = argc then
                          bind_outcome (validate_arguments g1) (\<lambda>r. Returns (r, g1))
                        else if c - argc = 2 then
                          bind_outcome (argv_at argv1 c)
                            (\<lambda>a1. bind_outcome (get_threshold (strtod pf) a1 (wload g1))
                               (\<lambda>wl. bind_outcome (argv_at argv1 (c + 1))
                                  (\<lambda>a2. bind_outcome (get_threshold (strtod pf) a2 (cload g1))
                                     (\<lambda>cl. let g2 = g1\<lparr>wload := wl, cload := cl\<rparr>
                                           in bind_outcome (validate_arguments g2)
                                                (\<lambda>r. Returns (r, g2))))))
                        else if c - argc = 1 then
                          bind_outcome (argv_at argv1 c)
                            (\<lambda>a1. bind_outcome (get_threshold (strtod pf) a1 (cload g1))
                               (\<lambda>cl. let g2 = g1\<lparr>cload := cl\<rparr>
                                     in bind_outcome (validate_arguments g2)
                                          (\<lambda>r. Returns (r, g2))))
                        else bind_outcome (validate_arguments g1) (\<lambda>r. Returns (r, g1)))))"

section \<open>The run: load retrieval, evaluation, report\<close>

text \<open>
  What the system answers during one run. \<open>getloadavg_la\<close> is the content of
  \<^verbatim>\<open>la\<close> after \<^verbatim>\<open>getloadavg (la, 3)\<close> returned 3. For the build without
  \<^verbatim>\<open>getloadavg\<close>: whether \<^verbatim>\<open>spopen\<close> and \<^verbatim>\<open>fdopen\<close> succeed, the line
  read by \<^verbatim>\<open>fgets\<close>, the values \<^verbatim>\<open>sscanf\<close> converts from it in order, and the
  result of \<^verbatim>\<open>spclose\<close>. \<open>number_of_cpus\<close> is \<^verbatim>\<open>GET_NUMBER_OF_CPUS()\<close>;
  \<open>np_runcmd_result\<close> and \<open>chld_out\<close> are the return value of \<^verbatim>\<open>np_runcmd\<close>
  on the \<^verbatim>\<open>ps\<close> command and the lines of its output.
\<close>

record world =
  getloadavg_result :: int
  getloadavg_la :: triplet
  spopen_ok :: bool
  child_stderr_ok :: bool
  input_buffer :: string
  sscanf_values :: "real list"
  spclose_result :: int
  number_of_cpus :: int
  np_runcmd_result :: int
  chld_out :: "string list"

fun is_prefix :: "string \<Rightarrow> string \<Rightarrow> bool" where
  "is_prefix [] s = True"
| "is_prefix (c # cs) [] = False"
| "is_prefix (c # cs) (d # ds) = (c = d \<and> is_prefix cs ds)"

text \<open>\<^verbatim>\<open>strstr (haystack, needle) != NULL\<close>\<close>

fun strstr :: "string \<Rightarrow> string \<Rightarrow> bool" where
  "strstr [] needle = (needle = [])"
| "strstr (c # cs) needle = (is_prefix needle (c # cs) \<or> strstr cs needle)"

text \<open>
  \<^verbatim>\<open>sscanf (..., &la1, &la5, &la15)\<close>: the converted values are stored in order, the
  other elements keep what they held.
\<close>

fun store_scanned :: "triplet \<Rightarrow> real list \<Rightarrow> triplet" where
  "store_scanned la [] = la"
| "store_scanned la [a] = upd3 la 0 a"
| "store_scanned la [a, b] = upd3 (upd3 la 0 a) 1 b"
| "store_scanned la (a # b # c # vs) = (a, b, c)"

text \<open>
  Lines 126 to 157 of \<^verbatim>\<open>main\<close>. A \<^verbatim>\<open>return\<close> from \<^verbatim>\<open>main\<close> ends the process
  with that exit code.
\<close>

definition retrieve_load :: "platform \<Rightarrow> world \<Rightarrow> (event list \<times> triplet) outcome" where
  "retrieve_load pf w =
     (if HAVE_GETLOADAVG pf then
        (if getloadavg_result w \<noteq> 3 then Exits STATE_UNKNOWN [Call_getloadavg]
         else Returns ([Call_getloadavg], getloadavg_la w))
      else if \<not> spopen_ok w then Exits STATE_UNKNOWN [Call_uptime, Printf ''Error opening %s'']
      else
        (let ev = Call_uptime # (if child_stderr_ok w then [] else [Printf ''Could not open stderr for %s''])
         in if strstr (input_buffer w) ''load average:'' \<or> strstr (input_buffer w) ''load averages:''
            then
              (if spclose_result w \<noteq> 0
               then Exits STATE_UNKNOWN (ev @ [Printf ''Error code %d returned in %s''])
               else Returns (ev, store_scanned (0, 0, 0) (sscanf_values w)))
            else Exits STATE_UNKNOWN (ev @ [Printf ''could not parse load from uptime %s: %d''])))"

text \<open>
  Lines 175 to 188: scaled mode. \<^verbatim>\<open>GET_NUMBER_OF_CPUS()\<close> is only called when
  \<^verbatim>\<open>take_into_account_cpus\<close> is set. The result is the calls made,
  \<^verbatim>\<open>is_using_scaled_load_values\<close> and \<^verbatim>\<open>scaled_la\<close>.
\<close>

definition scale_load :: "globals \<Rightarrow> world \<Rightarrow> triplet \<Rightarrow> event list \<times> bool \<times> triplet" where
  "scale_load g w la =
     (if take_into_account_cpus g then
        (if number_of_cpus w > 0
         then ([Call_number_of_cpus], True,
               (nth3 la 0 / real_of_int (number_of_cpus w),
                nth3 la 1 / real_of_int (number_of_cpus w),
                nth3 la 2 / real_of_int (number_of_cpus w)))
         else ([Call_number_of_cpus], False, (0, 0, 0)))
      else ([], False, (0, 0, 0)))"

text \<open>
  Lines 190 to 204: the walk over the windows. The arguments are
  \<^verbatim>\<open>is_using_scaled_load_values\<close>, \<^verbatim>\<open>scaled_la\<close>, \<^verbatim>\<open>la\<close>, \<^verbatim>\<open>wload\<close>,
  \<^verbatim>\<open>cload\<close>, the loop index and \<^verbatim>\<open>result\<close>; \<^verbatim>\<open>break\<close> leaves the loop with
  \<^verbatim>\<open>STATE_CRITICAL\<close>.
\<close>

function status_walk :: "bool \<Rightarrow> triplet \<Rightarrow> triplet \<Rightarrow> triplet \<Rightarrow> triplet \<Rightarrow> nat \<Rightarrow> int \<Rightarrow> int" where
  "status_walk scaled scaled_la la wl cl i result =
     (if i < 3 then
        (if scaled then
           (if nth3 scaled_la i > nth3 cl i then STATE_CRITICAL
            else if nth3 scaled_la i > nth3 wl i
              then status_walk scaled scaled_la la wl cl (i + 1) STATE_WARNING
              else status_walk scaled scaled_la la wl cl (i + 1) result)
         else
           (if nth3 la i > nth3 cl i then STATE_CRITICAL
            else if nth3 la i > nth3 wl i
              then status_walk scaled scaled_la la wl cl (i + 1) STATE_WARNING
              else status_walk scaled scaled_la la wl cl (i + 1) result))
      else result)"
  by pat_completeness auto
termination
  by (relation "measure (\<lambda>(scaled, scaled_la, la, wl, cl, i, result). 3 - i)") auto

text \<open>Lines 207 to 214: the performance data of window \<open>i\<close>.\<close>

definition perfdata :: "bool \<Rightarrow> triplet \<Rightarrow> triplet \<Rightarrow> globals \<Rightarrow> nat \<Rightarrow> event list" where
  "perfdata scaled scaled_la la g i =
     (if scaled then
        [Perfdata ''load'' (nums i) (nth3 la i) None,
         Perfdata ''scaled_load'' (nums i) (nth3 scaled_la i)
           (Some (nth3 (wload g) i, nth3 (cload g) i))]
      else [Perfdata ''load'' (nums i) (nth3 la i) (Some (nth3 (wload g) i, nth3 (cload g) i))])"

section \<open>The list of top consuming processes\<close>

text \<open>
  \<^verbatim>\<open>cmpstringp\<close>: both scans write the same variable \<^verbatim>\<open>procpcpu\<close>, which starts
  at 0 and keeps its value when a scan does not reach the field.
\<close>

definition cmpstringp :: "platform \<Rightarrow> string \<Rightarrow> string \<Rightarrow> int" where
  "cmpstringp pf p1 p2 =
     (let procpcpu1 = (case scan_procpcpu pf p1 of Some v \<Rightarrow> v | None \<Rightarrow> 0);
          procpcpu = (case scan_procpcpu pf p2 of Some v \<Rightarrow> v | None \<Rightarrow> procpcpu1)
      in if procpcpu1 < procpcpu then 1 else 0)"

text \<open>
  Conversions between \<^verbatim>\<open>int\<close> (32 bits, two's complement) and \<^verbatim>\<open>size_t\<close>
  (64 bits): \<open>to_int\<close> is the value as an \<^verbatim>\<open>int\<close> of an integer result,
  \<open>to_size_t\<close> the value of the cast \<^verbatim>\<open>(size_t)\<close>.
\<close>

definition to_int :: "int \<Rightarrow> int" where
  "to_int x = (x + 2147483648) mod 4294967296 - 2147483648"

definition to_size_t :: "int \<Rightarrow> int" where
  "to_size_t x = x mod 18446744073709551616"

text \<open>
  \<^verbatim>\<open>print_top_consuming_processes\<close> returns what it prints and its return value.
  The sort leaves \<^verbatim>\<open>chld_out.line[0]\<close> where it is (\<^verbatim>\<open>chld_out.line + 1\<close>,
  \<^verbatim>\<open>chld_out.lines - 1\<close>), and is compiled in only with \<^verbatim>\<open>PS_USES_PROCPCPU\<close>.
\<close>

definition print_top_consuming_processes :: "platform \<Rightarrow> world \<Rightarrow> globals \<Rightarrow> event list \<times> int" where
  "print_top_consuming_processes pf w g =
     (if np_runcmd_result w \<noteq> 0 then
        ([Call_ps, Stderr ''%s exited with non-zero status.''], STATE_UNKNOWN)
      else if length (chld_out w) < 2 then
        ([Call_ps, Stderr ''some error occurred getting procs list.''], STATE_UNKNOWN)
      else
        (let line = (if PS_USES_PROCPCPU pf
                     then hd (chld_out w) # qsort pf (cmpstringp pf) (tl (chld_out w))
                     else chld_out w);
             lines = int (length (chld_out w));
             lines_to_show = (if lines < to_size_t (to_int (n_procs_to_show g + 1))
                              then to_int lines else to_int (n_procs_to_show g + 1))
         in (Call_ps # map Process_line (take (nat lines_to_show) line), OK)))"

section \<open>main\<close>

text \<open>
  \<^verbatim>\<open>main\<close>, from the call of \<^verbatim>\<open>process_arguments\<close> on (\<open>argv\<close> is the vector
  that \<^verbatim>\<open>np_extra_opts\<close> hands back). Its outcome is the exit of the process: the exit
  code and everything the run did before. The return value of
  \<^verbatim>\<open>print_top_consuming_processes\<close> is dropped, as in the source.
\<close>

definition main :: "platform \<Rightarrow> world \<Rightarrow> string list \<Rightarrow> unit outcome" where
  "main pf w argv =
     bind_outcome (process_arguments pf argv initial_globals)
       (\<lambda>(r, g).
          if r = ERROR then usage4 ''Could not parse arguments''
          else
            bind_outcome (retrieve_load pf w)
              (\<lambda>(ev1, la).
                 if nth3 la 0 < 0 \<or> nth3 la 1 < 0 \<or> nth3 la 2 < 0 then
                   Exits STATE_UNKNOWN
                     (ev1 @ [Printf (if HAVE_GETLOADAVG pf then ''Error in getloadavg()''
                                     else ''Error processing %s'')])
                 else
                   (case scale_load g w la of
                      (ev2, scaled, scaled_la) \<Rightarrow>
                        (let result = status_walk scaled scaled_la la (wload g) (cload g) 0 STATE_OK;
                             report = Status_line result la (if scaled then Some scaled_la else None)
                                      # concat (map (perfdata scaled scaled_la la g) [0, 1, 2])
                                      @ [Newline];
                             top = (if n_procs_to_show g > 0
                                    then fst (print_top_consuming_processes pf w g) else [])
                         in Exits result (ev1 @ ev2 @ report @ top)))))"

text \<open>The exit code and the events of a finished run.\<close>

fun exit_code :: "'a outcome \<Rightarrow> int option" where
  "exit_code (Exits code out) = Some code"
| "exit_code (Returns x) = None"
| "exit_code Out_of_bounds = None"

fun events :: "'a outcome \<Rightarrow> event list" where
  "events (Exits code out) = out"
| "events (Returns x) = []"
| "events Out_of_bounds = []"

text \<open>A system for the examples: three load values, a CPU count, the lines of \<^verbatim>\<open>ps\<close>.\<close>

definition sample_world :: "triplet \<Rightarrow> int \<Rightarrow> string list \<Rightarrow> world" where
  "sample_world la ncpus ps =
     \<lparr>getloadavg_result = 3, getloadavg_la = la, spopen_ok = True, child_stderr_ok = True,
      input_buffer = '' 10:00:00 up 1 day,  1 user,  load average: 0.50, 0.40, 0.30'',
      sscanf_values = [nth3 la 0, nth3 la 1, nth3 la 2], spclose_result = 0,
      number_of_cpus = ncpus, np_runcmd_result = 0, chld_out = ps\<rparr>"

section \<open>Notions used in the statements\<close>

text \<open>
  The sample the walk compares: \<^verbatim>\<open>scaled_la\<close> in scaled mode, \<^verbatim>\<open>la\<close> otherwise.
\<close>

definition comparison :: "bool \<Rightarrow> triplet \<Rightarrow> triplet \<Rightarrow> triplet" where
  "comparison scaled scaled_la la = (if scaled then scaled_la else la)"

text \<open>
  The status \<^verbatim>\<open>main\<close> computes for a load sample: lines 175 to 204 together, for
  given globals (thresholds and the flag of \<^verbatim>\<open>-r\<close>) and a given CPU count.
\<close>

definition load_status :: "globals \<Rightarrow> world \<Rightarrow> triplet \<Rightarrow> int" where
  "load_status g w la =
     (case scale_load g w la of
        (ev, scaled, scaled_la) \<Rightarrow> status_walk scaled scaled_la la (wload g) (cload g) 0 STATE_OK)"

definition comparison_sample :: "globals \<Rightarrow> world \<Rightarrow> triplet \<Rightarrow> triplet" where
  "comparison_sample g w la =
     (case scale_load g w la of (ev, scaled, scaled_la) \<Rightarrow> comparison scaled scaled_la la)"

text \<open>The events that make up the report: the status line and the performance data.\<close>

fun is_report :: "event \<Rightarrow> bool" where
  "is_report (Status_line result la scaled_la) = True"
| "is_report (Perfdata label n v th) = True"
| "is_report e = False"

text \<open>The events that retrieve the load.\<close>

fun is_load_retrieval :: "event \<Rightarrow> bool" where
  "is_load_retrieval Call_getloadavg = True"
| "is_load_retrieval Call_uptime = True"
| "is_load_retrieval e = False"

text \<open>
  The array \<^verbatim>\<open>chld_out.line\<close> as \<^verbatim>\<open>print_top_consuming_processes\<close> prints from
  it: the listing, with the rows after the first one sorted where the build sorts.
\<close>

definition listed :: "platform \<Rightarrow> string list \<Rightarrow> string list" where
  "listed pf ls = (if PS_USES_PROCPCPU pf then hd ls # qsort pf (cmpstringp pf) (tl ls) else ls)"

text \<open>A process listing for the examples: the header and four processes.\<close>

definition sample_ps :: "string list" where
  "sample_ps =
     [''STAT UID PID PPID VSZ RSS %CPU ELAPSED COMMAND'',
      ''S 0 1 0 100 200 0.5 00:01 init'',
      ''S 0 2 0 100 200 12.5 00:01 a'',
      ''S 0 3 0 100 200 3.0 00:01 b'',
      ''S 0 4 0 100 200 7 00:01 c'']"

text \<open>What \<^verbatim>\<open>validate_arguments\<close> demands of window \<open>i\<close>.\<close>

definition acceptable :: "globals \<Rightarrow> nat \<Rightarrow> bool" where
  "acceptable g i = (0 \<le> nth3 (cload g) i \<and> 0 \<le> nth3 (wload g) i \<and> nth3 (wload g) i \<le> nth3 (cload g) i)"

section \<open>Auxiliary facts\<close>

declare status_walk.simps [simp del]
declare validate_loop.simps [simp del]
declare get_threshold_loop.simps [simp del]
declare fill_from.simps [simp del]
declare usage_def [simp] usage4_def [simp] usage5_def [simp] die_def [simp]

lemma ex_below_3: "(\<exists>i<3. P (i::nat)) = (P 0 \<or> P (Suc 0) \<or> P (Suc (Suc 0)))"
proof
  assume "\<exists>i<3. P i"
  then obtain i where i: "i < 3" "P i" by blast
  then have "i = 0 \<or> i = Suc 0 \<or> i = Suc (Suc 0)" by arith
  with i show "P 0 \<or> P (Suc 0) \<or> P (Suc (Suc 0))" by blast
next
  assume "P 0 \<or> P (Suc 0) \<or> P (Suc (Suc 0))"
  moreover have "P 0 \<Longrightarrow> \<exists>i<3. P i" by (rule exI [of _ 0]) simp
  moreover have "P (Suc 0) \<Longrightarrow> \<exists>i<3. P i" by (rule exI [of _ "Suc 0"]) simp
  moreover have "P (Suc (Suc 0)) \<Longrightarrow> \<exists>i<3. P i" by (rule exI [of _ "Suc (Suc 0)"]) simp
  ultimately show "\<exists>i<3. P i" by blast
qed

lemma all_below_3: "(\<forall>i<3. P (i::nat)) = (P 0 \<and> P (Suc 0) \<and> P (Suc (Suc 0)))"
  using ex_below_3 [of "\<lambda>i. \<not> P i"] by blast

subsection \<open>The walk over the windows\<close>

lemma status_walk_end: "\<not> i < 3 \<Longrightarrow> status_walk scaled sla la wl cl i r = r"
  by (subst status_walk.simps) simp

lemma status_walk_critical:
  "i < 3 \<Longrightarrow> nth3 (comparison scaled sla la) i > nth3 cl i \<Longrightarrow>
   status_walk scaled sla la wl cl i r = STATE_CRITICAL"
  by (cases scaled; subst status_walk.simps; simp add: comparison_def)

lemma status_walk_warning:
  "i < 3 \<Longrightarrow> \<not> nth3 (comparison scaled sla la) i > nth3 cl i \<Longrightarrow>
   nth3 (comparison scaled sla la) i > nth3 wl i \<Longrightarrow>
   status_walk scaled sla la wl cl i r = status_walk scaled sla la wl cl (i + 1) STATE_WARNING"
  by (cases scaled; subst status_walk.simps; simp add: comparison_def)

lemma status_walk_quiet:
  "i < 3 \<Longrightarrow> \<not> nth3 (comparison scaled sla la) i > nth3 cl i \<Longrightarrow>
   \<not> nth3 (comparison scaled sla la) i > nth3 wl i \<Longrightarrow>
   status_walk scaled sla la wl cl i r = status_walk scaled sla la wl cl (i + 1) r"
  by (cases scaled; subst status_walk.simps; simp add: comparison_def)

lemma status_walk_step:
  "i < 3 \<Longrightarrow> status_walk scaled sla la wl cl i r =
     (if nth3 (comparison scaled sla la) i > nth3 cl i then STATE_CRITICAL
      else status_walk scaled sla la wl cl (Suc i)
             (if nth3 (comparison scaled sla la) i > nth3 wl i then STATE_WARNING else r))"
  using status_walk_critical status_walk_warning status_walk_quiet by simp

lemma status_walk_all:
  "status_walk scaled sla la wl cl 0 r =
     (if \<exists>i<3. nth3 (comparison scaled sla la) i > nth3 cl i then STATE_CRITICAL
      else if \<exists>i<3. nth3 (comparison scaled sla la) i > nth3 wl i then STATE_WARNING
      else r)"
proof -
  have w3: "status_walk scaled sla la wl cl (Suc (Suc (Suc 0))) x = x" for x
    by (rule status_walk_end) simp
  have w2: "status_walk scaled sla la wl cl (Suc (Suc 0)) x =
     (if nth3 (comparison scaled sla la) (Suc (Suc 0)) > nth3 cl (Suc (Suc 0)) then STATE_CRITICAL
      else if nth3 (comparison scaled sla la) (Suc (Suc 0)) > nth3 wl (Suc (Suc 0))
      then STATE_WARNING else x)" for x
    by (subst status_walk_step) (simp_all add: w3)
  have w1: "status_walk scaled sla la wl cl (Suc 0) x =
     (if nth3 (comparison scaled sla la) (Suc 0) > nth3 cl (Suc 0) then STATE_CRITICAL
      else status_walk scaled sla la wl cl (Suc (Suc 0))
             (if nth3 (comparison scaled sla la) (Suc 0) > nth3 wl (Suc 0)
              then STATE_WARNING else x))" for x
    by (rule status_walk_step) simp
  have w0: "status_walk scaled sla la wl cl 0 r =
     (if nth3 (comparison scaled sla la) 0 > nth3 cl 0 then STATE_CRITICAL
      else status_walk scaled sla la wl cl (Suc 0)
             (if nth3 (comparison scaled sla la) 0 > nth3 wl 0 then STATE_WARNING else r))"
    by (rule status_walk_step) simp
  show ?thesis
    unfolding w0 w1 w2 ex_below_3 by simp
qed

subsection \<open>Validation and argument processing\<close>

lemma validate_loop_end: "\<not> i < 3 \<Longrightarrow> validate_loop g i = Returns OK"
  by (subst validate_loop.simps) simp

lemma validate_loop_step:
  "i < 3 \<Longrightarrow> validate_loop g i =
     (if nth3 (cload g) i < 0 then
        Exits STATE_UNKNOWN
          [Die ''Critical threshold for %d-minute load average is not specified'' (nums i)]
      else if nth3 (wload g) i < 0 then
        Exits STATE_UNKNOWN
          [Die ''Warning threshold for %d-minute load average is not specified'' (nums i)]
      else if nth3 (wload g) i > nth3 (cload g) i then
        Exits STATE_UNKNOWN
          [Die ''Parameter inconsistency: %d-minute warning load is greater than critical load''
             (nums i)]
      else validate_loop g (Suc i))"
  by (subst validate_loop.simps) simp

lemma validate_loop_from:
  "validate_loop g i = Returns OK \<or> (\<exists>msg k. validate_loop g i = Exits STATE_UNKNOWN [Die msg k])"
proof (induction g i rule: validate_loop.induct)
  case (1 g i)
  show ?case
  proof (cases "i < 3")
    case False
    then show ?thesis by (simp add: validate_loop_end)
  next
    case True
    then show ?thesis using 1 by (auto simp add: validate_loop_step)
  qed
qed

lemma validate_loop_ok:
  "(validate_loop g i = Returns OK) = (\<forall>k. i \<le> k \<and> k < 3 \<longrightarrow> acceptable g k)"
proof (induction g i rule: validate_loop.induct)
  case (1 g i)
  show ?case
  proof (cases "i < 3")
    case False
    then show ?thesis by (auto simp add: validate_loop_end)
  next
    case True
    have split: "(\<forall>k. i \<le> k \<and> k < 3 \<longrightarrow> acceptable g k) =
                 (acceptable g i \<and> (\<forall>k. Suc i \<le> k \<and> k < 3 \<longrightarrow> acceptable g k))"
    proof
      assume h: "\<forall>k. i \<le> k \<and> k < 3 \<longrightarrow> acceptable g k"
      show "acceptable g i \<and> (\<forall>k. Suc i \<le> k \<and> k < 3 \<longrightarrow> acceptable g k)"
        using h True by auto
    next
      assume h: "acceptable g i \<and> (\<forall>k. Suc i \<le> k \<and> k < 3 \<longrightarrow> acceptable g k)"
      show "\<forall>k. i \<le> k \<and> k < 3 \<longrightarrow> acceptable g k"
      proof (intro allI impI)
        fix k
        assume "i \<le> k \<and> k < 3"
        then have "k = i \<or> (Suc i \<le> k \<and> k < 3)" by arith
        with h show "acceptable g k" by blast
      qed
    qed
    show ?thesis
    proof (cases "acceptable g i")
      case False
      then show ?thesis
        unfolding split using True by (auto simp add: validate_loop_step acceptable_def)
    next
      case a: True
      then have "validate_loop g i = validate_loop g (i + 1)"
        using True by (simp add: validate_loop_step acceptable_def)
      moreover have "(validate_loop g (i + 1) = Returns OK) =
                     (\<forall>k. i + 1 \<le> k \<and> k < 3 \<longrightarrow> acceptable g k)"
        using 1 True a by (simp add: acceptable_def not_less)
      ultimately show ?thesis unfolding split using a by simp
    qed
  qed
qed

lemma validate_arguments_ok:
  "(validate_arguments g = Returns OK) = (\<forall>i<3. acceptable g i)"
  by (simp add: validate_arguments_def validate_loop_ok)

lemma validate_arguments_cases:
  "validate_arguments g = Returns OK \<or> (\<exists>msg k. validate_arguments g = Exits STATE_UNKNOWN [Die msg k])"
  by (simp add: validate_arguments_def validate_loop_from)

lemma if_cascade:
  "\<not> c2 \<Longrightarrow> \<not> c1 \<Longrightarrow> (if c0 then a else if c2 then b else if c1 then c else a) = a"
  by simp

lemma process_arguments_validates:
  assumes "2 \<le> length argv"
    and "getopt_long pf optstring longopts argv = (opts, optind, argv1)"
    and "optind \<le> length argv"
  shows "process_arguments pf argv g =
           bind_outcome (option_loop pf opts g)
             (\<lambda>g1. bind_outcome (validate_arguments g1) (\<lambda>r. Returns (r, g1)))"
proof -
  have h2: "\<not> int optind - int (length argv) = 2"
    and h1: "\<not> int optind - int (length argv) = 1"
    using assms(3) by simp_all
  have a: "(int (length argv) < 2) = False"
    using assms(1) by simp
  show ?thesis
    apply (simp only: process_arguments_def Let_def assms(2) a prod.case if_False)
    apply (simp only: if_cascade [OF h2 h1])
    done
qed


subsection \<open>The status of a run that reaches the evaluation\<close>

lemma comparison_sample_eq:
  "comparison_sample g w la =
     (if take_into_account_cpus g \<and> 0 < number_of_cpus w
      then (nth3 la 0 / real_of_int (number_of_cpus w),
            nth3 la 1 / real_of_int (number_of_cpus w),
            nth3 la 2 / real_of_int (number_of_cpus w))
      else la)"
  by (simp add: comparison_sample_def scale_load_def comparison_def)

lemma load_status_worst:
  "load_status g w la =
     (if \<exists>i<3. nth3 (comparison_sample g w la) i > nth3 (cload g) i then STATE_CRITICAL
      else if \<exists>i<3. nth3 (comparison_sample g w la) i > nth3 (wload g) i then STATE_WARNING
      else STATE_OK)"
proof -
  obtain ev scaled sla where sc: "scale_load g w la = (ev, scaled, sla)"
    by (cases "scale_load g w la") auto
  show ?thesis
    unfolding load_status_def comparison_sample_def sc prod.case
    by (rule status_walk_all)
qed

lemma main_evaluates:
  assumes "process_arguments pf argv initial_globals = Returns (rc, g)"
    and "rc \<noteq> ERROR"
    and "retrieve_load pf w = Returns (ev, la)"
    and "\<forall>i<3. 0 \<le> nth3 la i"
  shows "\<exists>out. main pf w argv = Exits (load_status g w la) out"
proof -
  obtain ev2 scaled sla where sc: "scale_load g w la = (ev2, scaled, sla)"
    by (cases "scale_load g w la") auto
  have nn: "\<not> (nth3 la 0 < 0 \<or> nth3 la 1 < 0 \<or> nth3 la 2 < 0)"
    using assms(4) by (auto simp add: all_below_3 not_less numeral_2_eq_2)
  show ?thesis
    using assms(1-3) nn by (simp add: main_def sc load_status_def Let_def)
qed

lemma main_exit_code:
  assumes "process_arguments pf argv initial_globals = Returns (rc, g)"
    and "rc \<noteq> ERROR"
    and "retrieve_load pf w = Returns (ev, la)"
    and "\<forall>i<3. 0 \<le> nth3 la i"
  shows "exit_code (main pf w argv) = Some (load_status g w la)"
  using main_evaluates [OF assms] by auto

section \<open>The claims\<close>

text \<open>
  C1. The walk visits the windows in order over the comparison sample (the scaled values
  in scaled mode, the raw ones otherwise). A window strictly above its critical threshold
  ends the walk with CRITICAL, whatever the later windows hold; a window strictly above
  its warning threshold only sets WARNING and the walk goes on. So for a load sample
  without negative values the status, which is the exit code of the run, is CRITICAL
  if and only if some window exceeds its critical threshold, else WARNING if and only if
  some window exceeds its warning threshold, else OK; a value equal to a threshold does
  not escalate. The load (2.5, 2.0, 1.5) against warning (1, 1, 1) and critical (2, 2, 2)
  gives CRITICAL.
\<close>

theorem status_walk_escalation:
  "(i < 3 \<and> nth3 (comparison scaled sla la) i > nth3 cl i \<longrightarrow>
      status_walk scaled sla la wl cl i r = STATE_CRITICAL)
   \<and> (i < 3 \<and> \<not> nth3 (comparison scaled sla la) i > nth3 cl i
        \<and> nth3 (comparison scaled sla la) i > nth3 wl i \<longrightarrow>
      status_walk scaled sla la wl cl i r = status_walk scaled sla la wl cl (i + 1) STATE_WARNING)
   \<and> comparison_sample g w la' =
       (if take_into_account_cpus g \<and> 0 < number_of_cpus w
        then (nth3 la' 0 / real_of_int (number_of_cpus w),
              nth3 la' 1 / real_of_int (number_of_cpus w),
              nth3 la' 2 / real_of_int (number_of_cpus w))
        else la')
   \<and> ((\<forall>k<3. 0 \<le> nth3 la' k) \<longrightarrow>
        load_status g w la' =
          (if \<exists>k<3. nth3 (comparison_sample g w la') k > nth3 (cload g) k then STATE_CRITICAL
           else if \<exists>k<3. nth3 (comparison_sample g w la') k > nth3 (wload g) k then STATE_WARNING
           else STATE_OK))
   \<and> ((\<forall>k<3. 0 \<le> nth3 la' k) \<and> process_arguments pf argv initial_globals = Returns (rc, g)
        \<and> rc \<noteq> ERROR \<and> retrieve_load pf w = Returns (ev, la') \<longrightarrow>
        exit_code (main pf w argv) = Some (load_status g w la'))
   \<and> exit_code (main posix_platform (sample_world (5 / 2, 2, 3 / 2) 1 [])
                  [''check_load'', ''-w'', ''1,1,1'', ''-c'', ''2,2,2'']) = Some STATE_CRITICAL"
proof -
  have ex: "exit_code (main posix_platform (sample_world (5 / 2, 2, 3 / 2) 1 [])
                  [''check_load'', ''-w'', ''1,1,1'', ''-c'', ''2,2,2'']) = Some STATE_CRITICAL"
    by code_simp
  show ?thesis
    using status_walk_critical [where i = i and scaled = scaled and sla = sla and la = la
                                  and cl = cl and wl = wl and r = r]
      status_walk_warning [where i = i and scaled = scaled and sla = sla and la = la
                             and cl = cl and wl = wl and r = r]
      comparison_sample_eq [where g = g and w = w and la = la']
      load_status_worst [where g = g and w = w and la = la']
      main_exit_code [where pf = pf and argv = argv and rc = rc and g = g and w = w
                        and ev = ev and la = la']
      ex
    by blast
qed

theorem status_walk_escalation_witness:
  "status_walk False (0, 0, 0) (5 / 2, 2, 3 / 2) (1, 1, 1) (2, 2, 2) 0 STATE_OK = STATE_CRITICAL
   \<and> status_walk False (0, 0, 0) (5 / 2, 2, 3 / 2) (1, 1, 1) (3, 3, 3) 0 STATE_OK
       = status_walk False (0, 0, 0) (5 / 2, 2, 3 / 2) (1, 1, 1) (3, 3, 3) 1 STATE_WARNING
   \<and> load_status \<lparr>wload = (1, 1, 1), cload = (2, 2, 2), take_into_account_cpus = False,
                   n_procs_to_show = 0\<rparr> (sample_world (5 / 2, 2, 3 / 2) 1 []) (5 / 2, 2, 3 / 2)
       = STATE_CRITICAL
   \<and> exit_code (main posix_platform (sample_world (5 / 2, 2, 3 / 2) 1 [])
                  [''check_load'', ''-w'', ''1,1,1'', ''-c'', ''2,2,2'']) = Some STATE_CRITICAL"
proof -
  let ?la = "(5 / 2, 2, 3 / 2) :: triplet"
  let ?g = "\<lparr>wload = (1, 1, 1), cload = (2, 2, 2), take_into_account_cpus = False,
             n_procs_to_show = 0\<rparr>"
  let ?w = "sample_world ?la 1 []"
  let ?argv = "[''check_load'', ''-w'', ''1,1,1'', ''-c'', ''2,2,2'']"
  have c: "0 < (3::nat) \<and> nth3 (comparison False (0, 0, 0) ?la) 0 > nth3 (2, 2, 2) 0"
    by (simp add: comparison_def nth3_def)
  have wn: "0 < (3::nat) \<and> \<not> nth3 (comparison False (0, 0, 0) ?la) 0 > nth3 (3, 3, 3) 0
            \<and> nth3 (comparison False (0, 0, 0) ?la) 0 > nth3 (1, 1, 1) 0"
    by (simp add: comparison_def nth3_def)
  have nn: "\<forall>k<3. 0 \<le> nth3 ?la k"
    by (simp add: all_below_3 nth3_def)
  have pa: "process_arguments posix_platform ?argv initial_globals = Returns (OK, ?g)"
    by code_simp
  have ok: "OK \<noteq> ERROR"
    by (simp add: OK_def ERROR_def)
  have rl: "retrieve_load posix_platform ?w = Returns ([Call_getloadavg], ?la)"
    by (simp add: retrieve_load_def posix_platform_def sample_world_def)
  have ex: "\<exists>k<3. nth3 (comparison_sample ?g ?w ?la) k > nth3 (cload ?g) k"
    by (simp add: ex_below_3 comparison_sample_def scale_load_def comparison_def nth3_def)
  note t1 = status_walk_escalation
      [where i = 0 and scaled = False and sla = "(0, 0, 0)" and la = ?la and cl = "(2, 2, 2)"
         and wl = "(1, 1, 1)" and r = STATE_OK and g = ?g and w = ?w and la' = ?la
         and pf = posix_platform and argv = ?argv and rc = OK and ev = "[Call_getloadavg]"]
  note t2 = status_walk_escalation
      [where i = 0 and scaled = False and sla = "(0, 0, 0)" and la = ?la and cl = "(3, 3, 3)"
         and wl = "(1, 1, 1)" and r = STATE_OK and g = ?g and w = ?w and la' = ?la
         and pf = posix_platform and argv = ?argv and rc = OK and ev = "[Call_getloadavg]"]
  have a: "status_walk False (0, 0, 0) ?la (1, 1, 1) (2, 2, 2) 0 STATE_OK = STATE_CRITICAL"
    using t1 c by blast
  have b: "status_walk False (0, 0, 0) ?la (1, 1, 1) (3, 3, 3) 0 STATE_OK
           = status_walk False (0, 0, 0) ?la (1, 1, 1) (3, 3, 3) 1 STATE_WARNING"
    using t2 wn by simp
  have d: "load_status ?g ?w ?la = STATE_CRITICAL"
    using t1 nn ex by simp
  have e: "exit_code (main posix_platform ?w ?argv) = Some STATE_CRITICAL"
    using t1 nn pa ok rl d by simp
  show ?thesis
    using a b d e by blast
qed


lemma comparison_sample_mono:
  assumes "i < 3" and "nth3 la i \<le> nth3 la' i"
  shows "nth3 (comparison_sample g w la) i \<le> nth3 (comparison_sample g w la') i"
proof -
  have i: "i = 0 \<or> i = 1 \<or> i = 2"
    using assms(1) by arith
  show ?thesis
  proof (cases "take_into_account_cpus g \<and> 0 < number_of_cpus w")
    case False
    then have "comparison_sample g w la = la" and "comparison_sample g w la' = la'"
      by (auto simp add: comparison_sample_eq)
    then show ?thesis using assms(2) by simp
  next
    case True
    then have "0 < real_of_int (number_of_cpus w)" by simp
    then have d: "nth3 la i / real_of_int (number_of_cpus w) \<le> nth3 la' i / real_of_int (number_of_cpus w)"
      using assms(2) by (simp add: divide_right_mono)
    have "nth3 (comparison_sample g w x) i = nth3 x i / real_of_int (number_of_cpus w)" for x
      using True i by (cases x) (auto simp add: comparison_sample_eq nth3_def)
    then show ?thesis
      using d by simp
  qed
qed

lemma load_status_mono:
  assumes "\<forall>i<3. nth3 la i \<le> nth3 la' i"
  shows "load_status g w la \<le> load_status g w la'"
proof -
  have up: "nth3 th i < nth3 (comparison_sample g w la) i \<Longrightarrow> i < 3 \<Longrightarrow>
            nth3 th i < nth3 (comparison_sample g w la') i" for th i
    using comparison_sample_mono [of i la la' g w] assms by force
  have c: "\<exists>i<3. nth3 (cload g) i < nth3 (comparison_sample g w la') i"
    if "\<exists>i<3. nth3 (cload g) i < nth3 (comparison_sample g w la) i"
    using that up by blast
  have w: "\<exists>i<3. nth3 (wload g) i < nth3 (comparison_sample g w la') i"
    if "\<exists>i<3. nth3 (wload g) i < nth3 (comparison_sample g w la) i"
    using that up by blast
  show ?thesis
    unfolding load_status_worst [of g w la] load_status_worst [of g w la']
    using c w by (simp add: STATE_OK_def STATE_WARNING_def STATE_CRITICAL_def) blast
qed

lemma load_status_cpus:
  "number_of_cpus w' = number_of_cpus w \<Longrightarrow> load_status g w' la = load_status g w la"
  by (simp add: load_status_def scale_load_def)

text \<open>
  C6. Evaluation is monotonic in the load sample. With the same thresholds (where each
  warning threshold is at most its critical threshold), the same CPU count and the same
  scaling mode, a sample that is at least as large in every window gets a status that is
  at least as large, in the order OK < WARNING < CRITICAL of the exit codes 0, 1, 2; and
  so do the exit codes of two runs that differ in the load sample only.
\<close>

theorem evaluation_monotonic:
  "(\<forall>i<3. nth3 (wload g) i \<le> nth3 (cload g) i) \<and> (\<forall>i<3. nth3 la i \<le> nth3 la' i) \<longrightarrow>
     load_status g w la \<le> load_status g w la'
     \<and> (process_arguments pf argv initial_globals = Returns (rc, g) \<and> rc \<noteq> ERROR
        \<and> retrieve_load pf w = Returns (ev, la) \<and> retrieve_load pf w' = Returns (ev', la')
        \<and> number_of_cpus w' = number_of_cpus w \<and> (\<forall>i<3. 0 \<le> nth3 la i) \<longrightarrow>
        (\<exists>s s'. exit_code (main pf w argv) = Some s \<and> exit_code (main pf w' argv) = Some s'
                 \<and> s \<le> s'))"
proof (intro impI conjI)
  assume h: "(\<forall>i<3. nth3 (wload g) i \<le> nth3 (cload g) i) \<and> (\<forall>i<3. nth3 la i \<le> nth3 la' i)"
  then show m: "load_status g w la \<le> load_status g w la'"
    by (simp add: load_status_mono)
  assume r: "process_arguments pf argv initial_globals = Returns (rc, g) \<and> rc \<noteq> ERROR
        \<and> retrieve_load pf w = Returns (ev, la) \<and> retrieve_load pf w' = Returns (ev', la')
        \<and> number_of_cpus w' = number_of_cpus w \<and> (\<forall>i<3. 0 \<le> nth3 la i)"
  have nn: "\<forall>i<3. 0 \<le> nth3 la' i"
    using h r by force
  have 1: "exit_code (main pf w argv) = Some (load_status g w la)"
    using r main_exit_code by blast
  have 2: "exit_code (main pf w' argv) = Some (load_status g w' la')"
    using r nn main_exit_code by blast
  have "load_status g w' la' = load_status g w la'"
    using r load_status_cpus by blast
  with 1 2 m show "\<exists>s s'. exit_code (main pf w argv) = Some s \<and> exit_code (main pf w' argv) = Some s'
                 \<and> s \<le> s'"
    by simp
qed

theorem evaluation_monotonic_witness:
  "load_status \<lparr>wload = (1, 1, 1), cload = (2, 2, 2), take_into_account_cpus = True,
                 n_procs_to_show = 0\<rparr> (sample_world (1, 1, 1) 2 []) (1, 1, 1) = STATE_OK
   \<and> load_status \<lparr>wload = (1, 1, 1), cload = (2, 2, 2), take_into_account_cpus = True,
                   n_procs_to_show = 0\<rparr> (sample_world (1, 1, 1) 2 []) (1, 3, 1) = STATE_WARNING
   \<and> exit_code (main posix_platform (sample_world (1, 1, 1) 2 [])
                  [''check_load'', ''-r'', ''-w'', ''1'', ''-c'', ''2'']) = Some STATE_OK
   \<and> exit_code (main posix_platform (sample_world (1, 3, 1) 2 [])
                  [''check_load'', ''-r'', ''-w'', ''1'', ''-c'', ''2'']) = Some STATE_WARNING
   \<and> STATE_OK \<le> STATE_WARNING"
proof -
  let ?g = "\<lparr>wload = (1, 1, 1), cload = (2, 2, 2), take_into_account_cpus = True,
             n_procs_to_show = 0\<rparr>"
  let ?la = "(1, 1, 1) :: triplet"
  let ?la' = "(1, 3, 1) :: triplet"
  let ?argv = "[''check_load'', ''-r'', ''-w'', ''1'', ''-c'', ''2'']"
  have th: "\<forall>i<3. nth3 (wload ?g) i \<le> nth3 (cload ?g) i"
    by (simp add: all_below_3 nth3_def)
  have le: "\<forall>i<3. nth3 ?la i \<le> nth3 ?la' i"
    by (simp add: all_below_3 nth3_def)
  have nn: "\<forall>i<3. 0 \<le> nth3 ?la i"
    by (simp add: all_below_3 nth3_def)
  have pa: "process_arguments posix_platform ?argv initial_globals = Returns (OK, ?g)"
    by code_simp
  have ok: "OK \<noteq> ERROR"
    by (simp add: OK_def ERROR_def)
  have rl: "retrieve_load posix_platform (sample_world ?la 2 []) = Returns ([Call_getloadavg], ?la)"
    by (simp add: retrieve_load_def posix_platform_def sample_world_def)
  have rl': "retrieve_load posix_platform (sample_world ?la' 2 []) = Returns ([Call_getloadavg], ?la')"
    by (simp add: retrieve_load_def posix_platform_def sample_world_def)
  have nc: "number_of_cpus (sample_world ?la' 2 []) = number_of_cpus (sample_world ?la 2 [])"
    by (simp add: sample_world_def)
  have v: "load_status ?g (sample_world ?la 2 []) ?la = STATE_OK"
    by code_simp
  have v': "load_status ?g (sample_world ?la 2 []) ?la' = STATE_WARNING"
    by code_simp
  have e: "exit_code (main posix_platform (sample_world ?la 2 []) ?argv) = Some STATE_OK"
    by code_simp
  have e': "exit_code (main posix_platform (sample_world ?la' 2 []) ?argv) = Some STATE_WARNING"
    by code_simp
  note t = evaluation_monotonic
      [where g = ?g and la = ?la and la' = ?la' and w = "sample_world ?la 2 []"
         and w' = "sample_world ?la' 2 []" and pf = posix_platform and argv = ?argv
         and rc = OK and ev = "[Call_getloadavg]" and ev' = "[Call_getloadavg]"]
  have "load_status ?g (sample_world ?la 2 []) ?la \<le> load_status ?g (sample_world ?la 2 []) ?la'"
    using t th le by blast
  then have "STATE_OK \<le> STATE_WARNING"
    using v v' by simp
  moreover have "\<exists>s s'. exit_code (main posix_platform (sample_world ?la 2 []) ?argv) = Some s
                  \<and> exit_code (main posix_platform (sample_world ?la' 2 []) ?argv) = Some s' \<and> s \<le> s'"
    using t th le pa ok rl rl' nc nn by blast
  ultimately show ?thesis
    using v v' e e' by simp
qed

lemma retrieve_load_no_report:
  "retrieve_load pf w = Returns (ev, la) \<Longrightarrow> list_all (\<lambda>e. \<not> is_report e) ev"
  by (auto simp add: retrieve_load_def Let_def split: if_splits)

lemma main_negative_load:
  assumes "process_arguments pf argv initial_globals = Returns (rc, g)"
    and "rc \<noteq> ERROR"
    and "retrieve_load pf w = Returns (ev, la)"
    and "\<exists>i<3. nth3 la i < 0"
  shows "main pf w argv =
           Exits STATE_UNKNOWN
             (ev @ [Printf (if HAVE_GETLOADAVG pf then ''Error in getloadavg()''
                            else ''Error processing %s'')])"
proof -
  have neg: "nth3 la 0 < 0 \<or> nth3 la 1 < 0 \<or> nth3 la 2 < 0"
    using assms(4) by (auto simp add: ex_below_3 numeral_2_eq_2)
  show ?thesis
    using assms(1-3) neg by (simp add: main_def)
qed

text \<open>
  C7. A negative raw load value is a failed retrieval. When the run has got as far as the
  load (the arguments were accepted and the load source answered) and any of the three
  values is negative, the program prints its error message and exits with UNKNOWN; no
  status line and no performance data are printed, and neither the thresholds nor any
  other global takes part in the result.
\<close>

theorem negative_load_is_unknown:
  "process_arguments pf argv initial_globals = Returns (rc, g) \<and> rc \<noteq> ERROR
   \<and> retrieve_load pf w = Returns (ev, la) \<and> (\<exists>i<3. nth3 la i < 0) \<longrightarrow>
     main pf w argv =
       Exits STATE_UNKNOWN
         (ev @ [Printf (if HAVE_GETLOADAVG pf then ''Error in getloadavg()''
                        else ''Error processing %s'')])
     \<and> exit_code (main pf w argv) = Some STATE_UNKNOWN
     \<and> list_all (\<lambda>e. \<not> is_report e) (events (main pf w argv))"
proof (intro impI)
  assume h: "process_arguments pf argv initial_globals = Returns (rc, g) \<and> rc \<noteq> ERROR
   \<and> retrieve_load pf w = Returns (ev, la) \<and> (\<exists>i<3. nth3 la i < 0)"
  then have m: "main pf w argv =
       Exits STATE_UNKNOWN
         (ev @ [Printf (if HAVE_GETLOADAVG pf then ''Error in getloadavg()''
                        else ''Error processing %s'')])"
    using main_negative_load by blast
  have "list_all (\<lambda>e. \<not> is_report e) ev"
    using h retrieve_load_no_report by blast
  then show "main pf w argv =
       Exits STATE_UNKNOWN
         (ev @ [Printf (if HAVE_GETLOADAVG pf then ''Error in getloadavg()''
                        else ''Error processing %s'')])
     \<and> exit_code (main pf w argv) = Some STATE_UNKNOWN
     \<and> list_all (\<lambda>e. \<not> is_report e) (events (main pf w argv))"
    using m by simp
qed

theorem negative_load_is_unknown_witness:
  "main posix_platform (sample_world (1, - 1, 1) 1 []) [''check_load'', ''-w'', ''5'', ''-c'', ''9'']
     = Exits STATE_UNKNOWN [Call_getloadavg, Printf ''Error in getloadavg()'']
   \<and> main uptime_platform (sample_world (1, 1, - 1) 1 []) [''check_load'', ''-w'', ''0'', ''-c'', ''0'']
     = Exits STATE_UNKNOWN [Call_uptime, Printf ''Error processing %s'']"
proof -
  let ?a1 = "[''check_load'', ''-w'', ''5'', ''-c'', ''9'']"
  let ?a2 = "[''check_load'', ''-w'', ''0'', ''-c'', ''0'']"
  let ?g1 = "\<lparr>wload = (5, 5, 5), cload = (9, 9, 9), take_into_account_cpus = False,
              n_procs_to_show = 0\<rparr>"
  let ?w1 = "sample_world (1, - 1, 1) 1 []"
  let ?w2 = "sample_world (1, 1, - 1) 1 []"
  have ok: "OK \<noteq> ERROR"
    by (simp add: OK_def ERROR_def)
  have p1: "process_arguments posix_platform ?a1 initial_globals = Returns (OK, ?g1)"
    by code_simp
  have p2: "process_arguments uptime_platform ?a2 initial_globals = Returns (OK, initial_globals)"
    by code_simp
  have r1: "retrieve_load posix_platform ?w1 = Returns ([Call_getloadavg], (1, - 1, 1))"
    by (simp add: retrieve_load_def posix_platform_def sample_world_def)
  have r2: "retrieve_load uptime_platform ?w2 = Returns ([Call_uptime], (1, 1, - 1))"
    by code_simp
  have n1: "\<exists>i<3. nth3 (1, - 1, 1) i < 0"
    by (simp add: ex_below_3 nth3_def)
  have n2: "\<exists>i<3. nth3 (1, 1, - 1) i < 0"
    by (simp add: ex_below_3 nth3_def)
  have h1: "HAVE_GETLOADAVG posix_platform"
    by (simp add: posix_platform_def)
  have h2: "\<not> HAVE_GETLOADAVG uptime_platform"
    by (simp add: uptime_platform_def posix_platform_def)
  have "main posix_platform ?w1 ?a1
     = Exits STATE_UNKNOWN [Call_getloadavg, Printf ''Error in getloadavg()'']"
    using negative_load_is_unknown
      [where pf = posix_platform and argv = ?a1 and rc = OK and g = ?g1 and w = ?w1
         and ev = "[Call_getloadavg]" and la = "(1, - 1, 1)"]
      p1 ok r1 n1 h1 by simp
  moreover have "main uptime_platform ?w2 ?a2
     = Exits STATE_UNKNOWN [Call_uptime, Printf ''Error processing %s'']"
    using negative_load_is_unknown
      [where pf = uptime_platform and argv = ?a2 and rc = OK and g = initial_globals and w = ?w2
         and ev = "[Call_uptime]" and la = "(1, 1, - 1)"]
      p2 ok r2 n2 h2 by simp
  ultimately show ?thesis by blast
qed

lemma print_top_failure:
  "np_runcmd_result w \<noteq> 0 \<or> length (chld_out w) < 2 \<Longrightarrow>
   \<exists>msg. print_top_consuming_processes pf w g = ([Call_ps, Stderr msg], STATE_UNKNOWN)"
  by (auto simp add: print_top_consuming_processes_def)

lemma retrieve_load_ps:
  "retrieve_load pf (w\<lparr>np_runcmd_result := r, chld_out := ls\<rparr>) = retrieve_load pf w"
  by (simp add: retrieve_load_def Let_def)

lemma scale_load_ps:
  "scale_load g (w\<lparr>np_runcmd_result := r, chld_out := ls\<rparr>) la = scale_load g w la"
  by (simp add: scale_load_def)

lemma exit_code_bind:
  "exit_code (bind_outcome m f) =
     (case m of Exits code out \<Rightarrow> Some code | Returns x \<Rightarrow> exit_code (f x) | Out_of_bounds \<Rightarrow> None)"
  by (cases m) simp_all

lemma main_exit_code_ps:
  "exit_code (main pf (w\<lparr>np_runcmd_result := r, chld_out := ls\<rparr>) argv) = exit_code (main pf w argv)"
  by (simp add: main_def exit_code_bind retrieve_load_ps scale_load_ps Let_def
      split: outcome.splits prod.splits)

text \<open>
  C9. A failure inside the listing of the top processes is local. When the process
  listing command ends with a non-zero status, or gives fewer than 2 lines, the step
  writes one diagnostic to the error stream and returns UNKNOWN; \<^verbatim>\<open>main\<close> drops that
  value, so the exit code of the program is the same as with a listing that succeeds:
  the status that the load evaluation determined.
\<close>

theorem top_processes_failure_is_local:
  "np_runcmd_result w \<noteq> 0 \<or> length (chld_out w) < 2 \<longrightarrow>
     (\<exists>msg. print_top_consuming_processes pf w g = ([Call_ps, Stderr msg], STATE_UNKNOWN))
     \<and> exit_code (main pf w argv)
         = exit_code (main pf (w\<lparr>np_runcmd_result := 0, chld_out := ls\<rparr>) argv)
     \<and> (process_arguments pf argv initial_globals = Returns (rc, g) \<and> rc \<noteq> ERROR
        \<and> retrieve_load pf w = Returns (ev, la) \<and> (\<forall>i<3. 0 \<le> nth3 la i) \<longrightarrow>
        exit_code (main pf w argv) = Some (load_status g w la))"
  using print_top_failure [where w = w and pf = pf and g = g]
    main_exit_code_ps [where pf = pf and w = w and r = 0 and ls = ls and argv = argv]
    main_exit_code [where pf = pf and argv = argv and rc = rc and g = g and w = w
                      and ev = ev and la = la]
  by simp


theorem top_processes_failure_is_local_witness:
  "(\<exists>msg. print_top_consuming_processes posix_platform
            ((sample_world (5 / 2, 2, 3 / 2) 1 [])\<lparr>np_runcmd_result := 1\<rparr>)
            \<lparr>wload = (1, 1, 1), cload = (2, 2, 2), take_into_account_cpus = False,
               n_procs_to_show = 3\<rparr> = ([Call_ps, Stderr msg], STATE_UNKNOWN))
   \<and> (\<exists>msg. print_top_consuming_processes posix_platform
            (sample_world (5 / 2, 2, 3 / 2) 1 [''STAT UID PID PPID VSZ RSS %CPU COMMAND''])
            \<lparr>wload = (1, 1, 1), cload = (2, 2, 2), take_into_account_cpus = False,
               n_procs_to_show = 3\<rparr> = ([Call_ps, Stderr msg], STATE_UNKNOWN))
   \<and> exit_code (main posix_platform ((sample_world (5 / 2, 2, 3 / 2) 1 [])\<lparr>np_runcmd_result := 1\<rparr>)
                  [''check_load'', ''-w'', ''1'', ''-c'', ''2'', ''-n'', ''3''])
       = Some STATE_CRITICAL
   \<and> exit_code (main posix_platform
                  (sample_world (5 / 2, 2, 3 / 2) 1 [''STAT UID PID PPID VSZ RSS %CPU COMMAND''])
                  [''check_load'', ''-w'', ''1'', ''-c'', ''2'', ''-n'', ''3''])
       = Some STATE_CRITICAL"
proof -
  let ?la = "(5 / 2, 2, 3 / 2) :: triplet"
  let ?g = "\<lparr>wload = (1, 1, 1), cload = (2, 2, 2), take_into_account_cpus = False,
             n_procs_to_show = 3\<rparr>"
  let ?w1 = "(sample_world ?la 1 [])\<lparr>np_runcmd_result := 1\<rparr>"
  let ?w2 = "sample_world ?la 1 [''STAT UID PID PPID VSZ RSS %CPU COMMAND'']"
  let ?argv = "[''check_load'', ''-w'', ''1'', ''-c'', ''2'', ''-n'', ''3'']"
  have f1: "np_runcmd_result ?w1 \<noteq> 0 \<or> length (chld_out ?w1) < 2"
    by (simp add: sample_world_def)
  have f2: "np_runcmd_result ?w2 \<noteq> 0 \<or> length (chld_out ?w2) < 2"
    by (simp add: sample_world_def)
  have nn: "\<forall>k<3. 0 \<le> nth3 ?la k"
    by (simp add: all_below_3 nth3_def)
  have pa: "process_arguments posix_platform ?argv initial_globals = Returns (OK, ?g)"
    by code_simp
  have ok: "OK \<noteq> ERROR"
    by (simp add: OK_def ERROR_def)
  have r1: "retrieve_load posix_platform ?w1 = Returns ([Call_getloadavg], ?la)"
    by (simp add: retrieve_load_def posix_platform_def sample_world_def)
  have r2: "retrieve_load posix_platform ?w2 = Returns ([Call_getloadavg], ?la)"
    by (simp add: retrieve_load_def posix_platform_def sample_world_def)
  have s1: "load_status ?g ?w1 ?la = STATE_CRITICAL"
    by code_simp
  have s2: "load_status ?g ?w2 ?la = STATE_CRITICAL"
    by code_simp
  note t1 = top_processes_failure_is_local
      [where w = ?w1 and pf = posix_platform and g = ?g and argv = ?argv and ls = "[]"
         and rc = OK and ev = "[Call_getloadavg]" and la = ?la]
  note t2 = top_processes_failure_is_local
      [where w = ?w2 and pf = posix_platform and g = ?g and argv = ?argv and ls = "[]"
         and rc = OK and ev = "[Call_getloadavg]" and la = ?la]
  have a1: "\<exists>msg. print_top_consuming_processes posix_platform ?w1 ?g
                   = ([Call_ps, Stderr msg], STATE_UNKNOWN)"
    using t1 f1 by blast
  have a2: "\<exists>msg. print_top_consuming_processes posix_platform ?w2 ?g
                   = ([Call_ps, Stderr msg], STATE_UNKNOWN)"
    using t2 f2 by blast
  have "exit_code (main posix_platform ?w1 ?argv) = Some (load_status ?g ?w1 ?la)"
    using t1 f1 pa ok r1 nn by blast
  then have e1: "exit_code (main posix_platform ?w1 ?argv) = Some STATE_CRITICAL"
    using s1 by simp
  have "exit_code (main posix_platform ?w2 ?argv) = Some (load_status ?g ?w2 ?la)"
    using t2 f2 pa ok r2 nn by blast
  then have e2: "exit_code (main posix_platform ?w2 ?argv) = Some STATE_CRITICAL"
    using s2 by simp
  show ?thesis
    using a1 a2 e1 e2 by blast
qed

lemma to_int_id: "- 2147483648 \<le> x \<Longrightarrow> x < 2147483648 \<Longrightarrow> to_int x = x"
  by (simp add: to_int_def)

lemma lines_to_show_min:
  assumes "0 < n" and "n \<le> 2147483647" and "2 \<le> L"
    and "n = 2147483647 \<longrightarrow> L \<le> 2147483647"
  shows "(if L < to_size_t (to_int (n + 1)) then to_int L else to_int (n + 1)) = min L (n + 1)"
proof (cases "n = 2147483647")
  case True
  have "to_int (n + 1) = - 2147483648"
    using True by (simp add: to_int_def)
  then have "to_size_t (to_int (n + 1)) = 18446744071562067968"
    by (simp add: to_size_t_def)
  moreover have "to_int L = L"
    using assms True by (simp add: to_int_id)
  ultimately show ?thesis
    using assms True by simp
next
  case False
  then have n: "n + 1 < 2147483648"
    using assms by simp
  then have t: "to_int (n + 1) = n + 1"
    using assms by (simp add: to_int_id)
  have s: "to_size_t (n + 1) = n + 1"
    using assms n by (simp add: to_size_t_def)
  have "to_int L = L" if "L < n + 1"
    using that assms n by (simp add: to_int_id)
  then show ?thesis
    unfolding t s by simp
qed

lemma mset_take_subset: "mset (take k xs) \<subseteq># mset xs"
proof -
  have "mset xs = mset (take k xs) + mset (drop k xs)"
    by (metis append_take_drop_id mset_append)
  then show ?thesis by simp
qed

lemma mset_insert_by: "mset (insert_by cmp x ys) = add_mset x (mset ys)"
  by (induction ys) auto

lemma mset_insertion_qsort: "mset (insertion_qsort cmp xs) = mset xs"
  by (induction xs) (auto simp add: insertion_qsort_def mset_insert_by)

lemma print_top_success:
  assumes run: "np_runcmd_result w = 0"
    and len: "2 \<le> length (chld_out w)"
      "n_procs_to_show g = 2147483647 \<longrightarrow> length (chld_out w) \<le> 2147483647"
    and top: "0 < n_procs_to_show g" "n_procs_to_show g \<le> 2147483647"
  shows "print_top_consuming_processes pf w g =
           (Call_ps # map Process_line
                        (take (min (length (chld_out w)) (nat (n_procs_to_show g + 1)))
                           (listed pf (chld_out w))), OK)"
proof -
  let ?L = "int (length (chld_out w))"
  let ?n = "n_procs_to_show g"
  have "(if ?L < to_size_t (to_int (?n + 1)) then to_int ?L else to_int (?n + 1)) = min ?L (?n + 1)"
    using top len by (intro lines_to_show_min) simp_all
  moreover have "nat (min ?L (?n + 1)) = min (length (chld_out w)) (nat (?n + 1))"
    using top by simp
  ultimately show ?thesis
    using run len(1) by (simp add: print_top_consuming_processes_def Let_def listed_def)
qed

lemma listed_permutes:
  assumes "2 \<le> length ls"
    and "PS_USES_PROCPCPU pf \<longrightarrow> mset (qsort pf (cmpstringp pf) (tl ls)) = mset (tl ls)"
  shows "mset (listed pf ls) = mset ls" and "hd (listed pf ls) = hd ls"
    and "length (listed pf ls) = length ls"
proof -
  obtain h t where ls: "ls = h # t"
    using assms(1) by (cases ls) auto
  show m: "mset (listed pf ls) = mset ls"
    using assms(2) by (simp add: listed_def ls)
  show "hd (listed pf ls) = hd ls"
    by (simp add: listed_def)
  show "length (listed pf ls) = length ls"
    using m by (metis size_mset)
qed

text \<open>
  C8. For a process listing of at least 2 lines and a positive number \<open>topN\<close> of
  processes to show, the step prints exactly \<open>min (length listing) (topN + 1)\<close> lines.
  The header line comes first, counts towards the \<open>topN + 1\<close> lines and is outside the
  range that is sorted; every printed line is a row of the listing as it stands (no row
  twice). \<open>topN\<close> is an \<^verbatim>\<open>int\<close>, so it is at most 2147483647; at that value
  \<^verbatim>\<open>n_procs_to_show + 1\<close> wraps around, and the count is still right as long as the
  number of lines fits the cast \<^verbatim>\<open>(int)chld_out.lines\<close>. Of \<^verbatim>\<open>qsort\<close> the
  proof needs only that it permutes the array it is given.
\<close>

theorem top_processes_listing:
  "np_runcmd_result w = 0 \<and> 2 \<le> length (chld_out w)
   \<and> 0 < n_procs_to_show g \<and> n_procs_to_show g \<le> 2147483647
   \<and> (n_procs_to_show g = 2147483647 \<longrightarrow> length (chld_out w) \<le> 2147483647)
   \<and> (PS_USES_PROCPCPU pf \<longrightarrow>
        mset (qsort pf (cmpstringp pf) (tl (chld_out w))) = mset (tl (chld_out w))) \<longrightarrow>
   (\<exists>printed.
      print_top_consuming_processes pf w g = (Call_ps # map Process_line printed, OK)
      \<and> length printed = min (length (chld_out w)) (nat (n_procs_to_show g + 1))
      \<and> hd printed = hd (chld_out w)
      \<and> mset printed \<subseteq># mset (chld_out w)
      \<and> printed = take (nat (n_procs_to_show g + 1))
                     (if PS_USES_PROCPCPU pf
                      then hd (chld_out w) # qsort pf (cmpstringp pf) (tl (chld_out w))
                      else chld_out w))"
proof (intro impI)
  assume h: "np_runcmd_result w = 0 \<and> 2 \<le> length (chld_out w)
   \<and> 0 < n_procs_to_show g \<and> n_procs_to_show g \<le> 2147483647
   \<and> (n_procs_to_show g = 2147483647 \<longrightarrow> length (chld_out w) \<le> 2147483647)
   \<and> (PS_USES_PROCPCPU pf \<longrightarrow>
        mset (qsort pf (cmpstringp pf) (tl (chld_out w))) = mset (tl (chld_out w)))"
  let ?k = "min (length (chld_out w)) (nat (n_procs_to_show g + 1))"
  let ?p = "take ?k (listed pf (chld_out w))"
  have p: "print_top_consuming_processes pf w g = (Call_ps # map Process_line ?p, OK)"
    using h print_top_success by blast
  have m: "mset (listed pf (chld_out w)) = mset (chld_out w)"
    and hd: "hd (listed pf (chld_out w)) = hd (chld_out w)"
    and ln: "length (listed pf (chld_out w)) = length (chld_out w)"
    using h listed_permutes [of "chld_out w" pf] by blast+
  have l: "length ?p = ?k"
    using ln by simp
  have "0 < length (chld_out w)" and "0 < nat (n_procs_to_show g + 1)"
    using h by auto
  then have "0 < ?k"
    by simp
  then have hp: "hd ?p = hd (chld_out w)"
    using hd by (metis hd_take)
  have s: "mset ?p \<subseteq># mset (chld_out w)"
    using mset_take_subset [of ?k "listed pf (chld_out w)"] m by simp
  have t: "?p = take (nat (n_procs_to_show g + 1)) (listed pf (chld_out w))"
    using ln by (simp add: min_def)
  show "\<exists>printed.
      print_top_consuming_processes pf w g = (Call_ps # map Process_line printed, OK)
      \<and> length printed = min (length (chld_out w)) (nat (n_procs_to_show g + 1))
      \<and> hd printed = hd (chld_out w)
      \<and> mset printed \<subseteq># mset (chld_out w)
      \<and> printed = take (nat (n_procs_to_show g + 1))
                     (if PS_USES_PROCPCPU pf
                      then hd (chld_out w) # qsort pf (cmpstringp pf) (tl (chld_out w))
                      else chld_out w)"
    using p l hp s t unfolding listed_def by blast
qed


theorem top_processes_listing_witness:
  "print_top_consuming_processes posix_platform (sample_world (1, 1, 1) 1 sample_ps)
     \<lparr>wload = (0, 0, 0), cload = (0, 0, 0), take_into_account_cpus = False, n_procs_to_show = 3\<rparr>
     = (Call_ps # map Process_line
                    [''STAT UID PID PPID VSZ RSS %CPU ELAPSED COMMAND'',
                     ''S 0 2 0 100 200 12.5 00:01 a'',
                     ''S 0 4 0 100 200 7 00:01 c'',
                     ''S 0 3 0 100 200 3.0 00:01 b''], OK)
   \<and> min (length sample_ps) (nat (3 + 1)) = 4"
proof -
  let ?w = "sample_world (1, 1, 1) 1 sample_ps"
  let ?g = "\<lparr>wload = (0, 0, 0), cload = (0, 0, 0), take_into_account_cpus = False,
             n_procs_to_show = 3\<rparr>"
  have hyp: "np_runcmd_result ?w = 0 \<and> 2 \<le> length (chld_out ?w)
     \<and> 0 < n_procs_to_show ?g \<and> n_procs_to_show ?g \<le> 2147483647
     \<and> (n_procs_to_show ?g = 2147483647 \<longrightarrow> length (chld_out ?w) \<le> 2147483647)
     \<and> (PS_USES_PROCPCPU posix_platform \<longrightarrow>
          mset (qsort posix_platform (cmpstringp posix_platform) (tl (chld_out ?w)))
            = mset (tl (chld_out ?w)))"
    by (simp add: sample_world_def sample_ps_def posix_platform_def mset_insertion_qsort)
  obtain printed where
    p: "print_top_consuming_processes posix_platform ?w ?g = (Call_ps # map Process_line printed, OK)"
    and t: "printed = take (nat (n_procs_to_show ?g + 1))
                       (if PS_USES_PROCPCPU posix_platform
                        then hd (chld_out ?w)
                             # qsort posix_platform (cmpstringp posix_platform) (tl (chld_out ?w))
                        else chld_out ?w)"
    using top_processes_listing [where w = ?w and g = ?g and pf = posix_platform] hyp by blast
  have "take (nat (n_procs_to_show ?g + 1))
          (if PS_USES_PROCPCPU posix_platform
           then hd (chld_out ?w)
                # qsort posix_platform (cmpstringp posix_platform) (tl (chld_out ?w))
           else chld_out ?w)
        = [''STAT UID PID PPID VSZ RSS %CPU ELAPSED COMMAND'',
           ''S 0 2 0 100 200 12.5 00:01 a'',
           ''S 0 4 0 100 200 7 00:01 c'',
           ''S 0 3 0 100 200 3.0 00:01 b'']"
    by code_simp
  moreover have "min (length sample_ps) (nat (3 + 1)) = 4"
    by (simp add: sample_ps_def)
  ultimately show ?thesis
    using p t by simp
qed

lemma loop_stop_failed:
  "i < 3 \<Longrightarrow> sd (drop str arg) = (v, 0) \<Longrightarrow>
   get_threshold_loop sd arg i str valid th = (i, valid, upd3 th i v)"
  by (subst get_threshold_loop.simps) (simp add: Let_def)

lemma loop_stop_end:
  "i < 3 \<Longrightarrow> sd (drop str arg) = (v, k) \<Longrightarrow> k \<noteq> 0 \<Longrightarrow> length arg \<le> str + k + 1 \<Longrightarrow>
   get_threshold_loop sd arg i str valid th = (i, True, upd3 th i v)"
  by (subst get_threshold_loop.simps) (simp add: Let_def)

lemma loop_continue:
  "i < 3 \<Longrightarrow> sd (drop str arg) = (v, k) \<Longrightarrow> k \<noteq> 0 \<Longrightarrow> \<not> length arg \<le> str + k + 1 \<Longrightarrow>
   get_threshold_loop sd arg i str valid th
     = get_threshold_loop sd arg (Suc i) (str + k + 1) True (upd3 th i v)"
  by (subst get_threshold_loop.simps) (simp add: Let_def)

lemma fill_from_step: "n < 3 \<Longrightarrow> fill_from th i n = fill_from (upd3 th n (nth3 th i)) i (Suc n)"
  by (subst fill_from.simps) simp

lemma fill_from_end: "\<not> n < 3 \<Longrightarrow> fill_from th i n = th"
  by (subst fill_from.simps) simp

lemma fill_from_0: "fill_from (a, b, c) 0 0 = (a, a, a)"
proof -
  have "fill_from (a, b, c) 0 0 = fill_from (a, b, c) 0 (Suc 0)"
    by (subst fill_from_step) (simp_all add: upd3_def nth3_def)
  also have "\<dots> = fill_from (a, a, c) 0 (Suc (Suc 0))"
    by (subst fill_from_step) (simp_all add: upd3_def nth3_def)
  also have "\<dots> = fill_from (a, a, a) 0 (Suc (Suc (Suc 0)))"
    by (subst fill_from_step) (simp_all add: upd3_def nth3_def)
  also have "\<dots> = (a, a, a)"
    by (rule fill_from_end) simp
  finally show ?thesis .
qed

lemma fill_from_1: "fill_from (a, b, c) (Suc 0) (Suc 0) = (a, b, b)"
proof -
  have "fill_from (a, b, c) (Suc 0) (Suc 0) = fill_from (a, b, c) (Suc 0) (Suc (Suc 0))"
    by (subst fill_from_step) (simp_all add: upd3_def nth3_def)
  also have "\<dots> = fill_from (a, b, b) (Suc 0) (Suc (Suc (Suc 0)))"
    by (subst fill_from_step) (simp_all add: upd3_def nth3_def)
  also have "\<dots> = (a, b, b)"
    by (rule fill_from_end) simp
  finally show ?thesis .
qed

lemma get_threshold_one:
  assumes "s1 \<noteq> []" and "sd s1 = (x, length s1)"
  shows "get_threshold sd s1 th = Returns (x, x, x)"
proof -
  obtain a b c where th: "th = (a, b, c)" by (cases th) auto
  have "get_threshold_loop sd s1 0 0 False th = (0, True, upd3 th 0 x)"
    using assms by (intro loop_stop_end [where k = "length s1"]) simp_all
  then show ?thesis
    by (simp add: get_threshold_def th upd3_def fill_from_0)
qed

lemma get_threshold_two:
  assumes "s1 \<noteq> []" and "s2 \<noteq> []"
    and "sd (s1 @ CHR '','' # s2) = (x, length s1)" and "sd s2 = (y, length s2)"
  shows "get_threshold sd (s1 @ CHR '','' # s2) th = Returns (x, y, y)"
proof -
  obtain a b c where th: "th = (a, b, c)" by (cases th) auto
  let ?arg = "s1 @ CHR '','' # s2"
  have "get_threshold_loop sd ?arg 0 0 False th
        = get_threshold_loop sd ?arg (Suc 0) (0 + length s1 + 1) True (upd3 th 0 x)"
    using assms by (intro loop_continue) simp_all
  also have "\<dots> = (Suc 0, True, upd3 (upd3 th 0 x) (Suc 0) y)"
    using assms by (intro loop_stop_end [where k = "length s2"]) simp_all
  finally show ?thesis
    by (simp add: get_threshold_def th upd3_def fill_from_1)
qed

lemma get_threshold_three:
  assumes "s1 \<noteq> []" and "s2 \<noteq> []" and "s3 \<noteq> []"
    and "sd (s1 @ CHR '','' # s2 @ CHR '','' # s3) = (x, length s1)"
    and "sd (s2 @ CHR '','' # s3) = (y, length s2)" and "sd s3 = (z, length s3)"
  shows "get_threshold sd (s1 @ CHR '','' # s2 @ CHR '','' # s3) th = Returns (x, y, z)"
proof -
  obtain a b c where th: "th = (a, b, c)" by (cases th) auto
  let ?arg = "s1 @ CHR '','' # s2 @ CHR '','' # s3"
  have "get_threshold_loop sd ?arg 0 0 False th
        = get_threshold_loop sd ?arg (Suc 0) (0 + length s1 + 1) True (upd3 th 0 x)"
    using assms by (intro loop_continue) simp_all
  also have "\<dots> = get_threshold_loop sd ?arg (Suc (Suc 0)) (0 + length s1 + 1 + length s2 + 1) True
                      (upd3 (upd3 th 0 x) (Suc 0) y)"
    using assms by (intro loop_continue) simp_all
  also have "\<dots> = (Suc (Suc 0), True, upd3 (upd3 (upd3 th 0 x) (Suc 0) y) (Suc (Suc 0)) z)"
    using assms by (intro loop_stop_end [where k = "length s3"]) simp_all
  finally show ?thesis
    by (simp add: get_threshold_def th upd3_def)
qed

lemma get_threshold_none:
  assumes "snd (sd arg) = 0"
  shows "get_threshold sd arg th =
           Exits STATE_UNKNOWN [Usage ''Warning threshold must be float or float triplet!'']"
proof -
  have "sd (drop 0 arg) = (fst (sd arg), 0)"
    using assms by (simp add: prod_eq_iff)
  then have "get_threshold_loop sd arg 0 0 False th = (0, False, upd3 th 0 (fst (sd arg)))"
    by (intro loop_stop_failed) simp_all
  then show ?thesis
    by (simp add: get_threshold_def)
qed

lemma strtod_decimal_none: "strtod_decimal [] = (0, 0)" "strtod_decimal ''abc'' = (0, 0)"
  by (simp_all add: strtod_decimal_def isspace_def isdigit_def)

text \<open>
  C2. A threshold string of one, two or three comma-separated numbers gives the
  broadcast triplet: \<open>x\<close> gives \<open>(x, x, x)\<close>, \<open>x,y\<close> gives \<open>(x, y, y)\<close> and
  \<open>x,y,z\<close> gives \<open>(x, y, z)\<close>. A field is a number when \<^verbatim>\<open>strtod\<close>, reading at
  the start of the field, converts exactly the field. A string at whose start
  \<^verbatim>\<open>strtod\<close> converts nothing, such as the empty string or \<open>abc\<close>, makes
  \<^verbatim>\<open>get_threshold\<close> end the program through \<^verbatim>\<open>usage\<close>, with exit code UNKNOWN.
\<close>

theorem get_threshold_triplets:
  "(s1 \<noteq> [] \<and> sd s1 = (x, length s1) \<longrightarrow> get_threshold sd s1 th = Returns (x, x, x))
   \<and> (s1 \<noteq> [] \<and> s2 \<noteq> [] \<and> sd (s1 @ '','' @ s2) = (x, length s1) \<and> sd s2 = (y, length s2) \<longrightarrow>
        get_threshold sd (s1 @ '','' @ s2) th = Returns (x, y, y))
   \<and> (s1 \<noteq> [] \<and> s2 \<noteq> [] \<and> s3 \<noteq> [] \<and> sd (s1 @ '','' @ s2 @ '','' @ s3) = (x, length s1)
        \<and> sd (s2 @ '','' @ s3) = (y, length s2) \<and> sd s3 = (z, length s3) \<longrightarrow>
        get_threshold sd (s1 @ '','' @ s2 @ '','' @ s3) th = Returns (x, y, z))
   \<and> (snd (sd arg) = 0 \<longrightarrow>
        get_threshold sd arg th =
          Exits STATE_UNKNOWN [Usage ''Warning threshold must be float or float triplet!''])
   \<and> get_threshold strtod_decimal [] th =
        Exits STATE_UNKNOWN [Usage ''Warning threshold must be float or float triplet!'']
   \<and> get_threshold strtod_decimal ''abc'' th =
        Exits STATE_UNKNOWN [Usage ''Warning threshold must be float or float triplet!'']"
  using get_threshold_one [where sd = sd and ?s1.0 = s1 and x = x and th = th]
    get_threshold_two [where sd = sd and ?s1.0 = s1 and ?s2.0 = s2 and x = x and y = y and th = th]
    get_threshold_three [where sd = sd and ?s1.0 = s1 and ?s2.0 = s2 and ?s3.0 = s3
                           and x = x and y = y and z = z and th = th]
    get_threshold_none [where sd = sd and arg = arg and th = th]
    get_threshold_none [where sd = strtod_decimal and arg = "[]" and th = th]
    get_threshold_none [where sd = strtod_decimal and arg = "''abc''" and th = th]
    strtod_decimal_none
  by simp

theorem get_threshold_triplets_witness:
  "get_threshold strtod_decimal ''7'' (0, 0, 0) = Returns (7, 7, 7)
   \<and> get_threshold strtod_decimal ''1.5,4'' (0, 0, 0) = Returns (3 / 2, 4, 4)
   \<and> get_threshold strtod_decimal ''0.70,0.60,0.50'' (0, 0, 0) = Returns (7 / 10, 6 / 10, 5 / 10)
   \<and> get_threshold strtod_decimal ''x9'' (0, 0, 0) =
        Exits STATE_UNKNOWN [Usage ''Warning threshold must be float or float triplet!'']"
proof -
  have h1: "''7'' \<noteq> [] \<and> strtod_decimal ''7'' = (7, length ''7'')"
    by (simp add: strtod_decimal_def isspace_def isdigit_def decimal_def)
  have h2: "''1.5'' \<noteq> [] \<and> ''4'' \<noteq> []
            \<and> strtod_decimal (''1.5'' @ '','' @ ''4'') = (3 / 2, length ''1.5'')
            \<and> strtod_decimal ''4'' = (4, length ''4'')"
    by (simp add: strtod_decimal_def isspace_def isdigit_def decimal_def)
  have h3: "''0.70'' \<noteq> [] \<and> ''0.60'' \<noteq> [] \<and> ''0.50'' \<noteq> []
            \<and> strtod_decimal (''0.70'' @ '','' @ ''0.60'' @ '','' @ ''0.50'') = (7 / 10, length ''0.70'')
            \<and> strtod_decimal (''0.60'' @ '','' @ ''0.50'') = (6 / 10, length ''0.60'')
            \<and> strtod_decimal ''0.50'' = (5 / 10, length ''0.50'')"
    by (simp add: strtod_decimal_def isspace_def isdigit_def decimal_def)
  have h4: "snd (strtod_decimal ''x9'') = 0"
    by (simp add: strtod_decimal_def isspace_def isdigit_def decimal_def)
  have "get_threshold strtod_decimal ''7'' (0, 0, 0) = Returns (7, 7, 7)"
    using get_threshold_triplets
      [where sd = strtod_decimal and ?s1.0 = "''7''" and x = 7 and th = "(0, 0, 0)"] h1
    by blast
  moreover have "get_threshold strtod_decimal (''1.5'' @ '','' @ ''4'') (0, 0, 0) = Returns (3 / 2, 4, 4)"
    using get_threshold_triplets
      [where sd = strtod_decimal and ?s1.0 = "''1.5''" and ?s2.0 = "''4''" and x = "3 / 2"
         and y = 4 and th = "(0, 0, 0)"] h2
    by blast
  moreover have "get_threshold strtod_decimal (''0.70'' @ '','' @ ''0.60'' @ '','' @ ''0.50'') (0, 0, 0)
                 = Returns (7 / 10, 6 / 10, 5 / 10)"
    using get_threshold_triplets
      [where sd = strtod_decimal and ?s1.0 = "''0.70''" and ?s2.0 = "''0.60''"
         and ?s3.0 = "''0.50''" and x = "7 / 10" and y = "6 / 10" and z = "5 / 10"
         and th = "(0, 0, 0)"] h3
    by blast
  moreover have "get_threshold strtod_decimal ''x9'' (0, 0, 0) =
        Exits STATE_UNKNOWN [Usage ''Warning threshold must be float or float triplet!'']"
    using get_threshold_triplets
      [where sd = strtod_decimal and arg = "''x9''" and th = "(0, 0, 0)"] h4
    by blast
  ultimately show ?thesis
    by simp
qed

lemma get_threshold_failed_field:
  assumes "s1 \<noteq> []" and "s2 \<noteq> []"
    and "sd (s1 @ CHR '','' # s2) = (x, length s1)" and "sd s2 = (0, 0)"
  shows "get_threshold sd (s1 @ CHR '','' # s2) th = Returns (x, 0, 0)"
proof -
  obtain a b c where th: "th = (a, b, c)" by (cases th) auto
  let ?arg = "s1 @ CHR '','' # s2"
  have "get_threshold_loop sd ?arg 0 0 False th
        = get_threshold_loop sd ?arg (Suc 0) (0 + length s1 + 1) True (upd3 th 0 x)"
    using assms by (intro loop_continue) simp_all
  also have "\<dots> = (Suc 0, True, upd3 (upd3 th 0 x) (Suc 0) 0)"
    using assms by (intro loop_stop_failed) simp_all
  finally show ?thesis
    by (simp add: get_threshold_def th upd3_def fill_from_1)
qed

text \<open>
  C3. According to the claim, and to the comment in the source (the array is filled
  ``with last we got''), a field that fails to convert after \<open>i\<close> good ones leaves the
  rest of the array filled with the last good value, so that \<open>1,abc\<close> gives
  \<open>(1, 1, 1)\<close>. The code stores the result of the failed conversion, which is 0, at the
  index where it stops, and fills from that element: \<open>1,abc\<close> gives \<open>(1, 0, 0)\<close>.
  With two good fields the loop stops at index 2 and nothing is filled at all:
  \<open>1,2,abc\<close> gives \<open>(1, 2, 0)\<close>. A run with \<^verbatim>\<open>-w 1,abc -c 2\<close> and a load of 0.5
  in every window therefore ends with WARNING.
\<close>

theorem failed_field_stores_zero:
  "get_threshold strtod_decimal ''1,abc'' (0, 0, 0) = Returns (1, 0, 0)
   \<and> get_threshold strtod_decimal ''1,2,abc'' (0, 0, 0) = Returns (1, 2, 0)
   \<and> exit_code (main posix_platform (sample_world (1 / 2, 1 / 2, 1 / 2) 1 [])
                  [''check_load'', ''-w'', ''1,abc'', ''-c'', ''2'']) = Some STATE_WARNING"
proof -
  have "get_threshold strtod_decimal ''1,abc'' (0, 0, 0) = Returns (1, 0, 0)"
    by code_simp
  moreover have "get_threshold strtod_decimal ''1,2,abc'' (0, 0, 0) = Returns (1, 2, 0)"
    by code_simp
  moreover have "exit_code (main posix_platform (sample_world (1 / 2, 1 / 2, 1 / 2) 1 [])
                  [''check_load'', ''-w'', ''1,abc'', ''-c'', ''2'']) = Some STATE_WARNING"
    by code_simp
  ultimately show ?thesis
    by blast
qed

lemma getopt_scan_lengths:
  "getopt_scan os lo pend args = (es, used, ns) \<Longrightarrow> length used + length ns = length args"
proof (induction os lo pend args arbitrary: es used ns rule: getopt_scan.induct)
  case (1 os lo)
  then show ?case by simp
next
  case (2 os lo ch)
  then show ?case by simp
next
  case (3 os lo ch a rest)
  then show ?case by (auto split: prod.splits)
next
  case (4 os lo a rest)
  then show ?case by (auto split: prod.splits if_splits)
qed

lemma gnu_getopt_long_optind:
  assumes "argv \<noteq> []" and "gnu_getopt_long os lo argv = (es, optind, argv1)"
  shows "optind \<le> length argv" and "length argv1 = length argv"
proof -
  obtain es' used ns where sc: "getopt_scan os lo None (tl argv) = (es', used, ns)"
    by (cases "getopt_scan os lo None (tl argv)") auto
  have l: "length used + length ns = length (tl argv)"
    using sc by (rule getopt_scan_lengths)
  have oi: "optind = 1 + length used" and a: "argv1 = take 1 argv @ used @ ns"
    using assms(2) by (simp_all add: gnu_getopt_long_def sc)
  show "optind \<le> length argv"
    using assms(1) l oi by (cases argv) simp_all
  show "length argv1 = length argv"
    using assms(1) l a by (cases argv) simp_all
qed

lemma positional_arguments_unused:
  assumes "2 \<le> length argv" and "getopt_long pf = gnu_getopt_long"
  shows "process_arguments pf argv g =
           bind_outcome (option_loop pf (fst (gnu_getopt_long optstring longopts argv)) g)
             (\<lambda>g1. bind_outcome (validate_arguments g1) (\<lambda>r. Returns (r, g1)))"
proof -
  obtain es optind argv1 where go: "gnu_getopt_long optstring longopts argv = (es, optind, argv1)"
    by (cases "gnu_getopt_long optstring longopts argv") auto
  have "argv \<noteq> []"
    using assms(1) by auto
  then have "optind \<le> length argv"
    using go gnu_getopt_long_optind(1) by blast
  then show ?thesis
    using process_arguments_validates [where pf = pf and argv = argv and opts = es
        and optind = optind and ?argv1.0 = argv1 and g = g] assms go
    by simp
qed

text \<open>
  C5. The source means to read trailing positional arguments as thresholds (two as
  warning then critical, one as critical alone), and has the calls of
  \<^verbatim>\<open>get_threshold\<close> for it, but it tests \<^verbatim>\<open>c - argc == 2\<close> and
  \<^verbatim>\<open>c - argc == 1\<close> with \<^verbatim>\<open>c = optind\<close>, which never exceeds \<^verbatim>\<open>argc\<close>: the
  differences are never positive and both branches are dead. Invoked with positional
  thresholds only, the program leaves both arrays at their defaults, where
  \<^verbatim>\<open>get_threshold\<close> would have produced (1, 2, 3) and (4, 5, 6); with a load of 0.5 in
  every window the run ends CRITICAL against the zero thresholds.
\<close>

theorem positional_thresholds_ignored:
  "process_arguments posix_platform [''check_load'', ''1,2,3'', ''4,5,6''] initial_globals
     = Returns (OK, initial_globals)
   \<and> process_arguments posix_platform [''check_load'', ''4,5,6''] initial_globals
     = Returns (OK, initial_globals)
   \<and> get_threshold strtod_decimal ''1,2,3'' (wload initial_globals) = Returns (1, 2, 3)
   \<and> get_threshold strtod_decimal ''4,5,6'' (cload initial_globals) = Returns (4, 5, 6)
   \<and> exit_code (main posix_platform (sample_world (1 / 2, 1 / 2, 1 / 2) 1 [])
                  [''check_load'', ''1,2,3'', ''4,5,6'']) = Some STATE_CRITICAL"
proof -
  have "process_arguments posix_platform [''check_load'', ''1,2,3'', ''4,5,6''] initial_globals
     = Returns (OK, initial_globals)"
    by code_simp
  moreover have "process_arguments posix_platform [''check_load'', ''4,5,6''] initial_globals
     = Returns (OK, initial_globals)"
    by code_simp
  moreover have "get_threshold strtod_decimal ''1,2,3'' (wload initial_globals) = Returns (1, 2, 3)"
    by code_simp
  moreover have "get_threshold strtod_decimal ''4,5,6'' (cload initial_globals) = Returns (4, 5, 6)"
    by code_simp
  moreover have "exit_code (main posix_platform (sample_world (1 / 2, 1 / 2, 1 / 2) 1 [])
                  [''check_load'', ''1,2,3'', ''4,5,6'']) = Some STATE_CRITICAL"
    by code_simp
  ultimately show ?thesis
    by blast
qed

lemma option_loop_keeps_thresholds:
  "list_all (\<lambda>e. fst e = CHR ''r'' \<or> fst e = CHR ''n'') opts \<Longrightarrow>
   \<exists>g'. option_loop pf opts g = Returns g' \<and> wload g' = wload g \<and> cload g' = cload g"
proof (induction opts arbitrary: g)
  case Nil
  then show ?case by simp
next
  case (Cons e opts)
  obtain c a where e: "e = (c, a)" by (cases e) auto
  have rest: "list_all (\<lambda>e. fst e = CHR ''r'' \<or> fst e = CHR ''n'') opts"
    using Cons.prems by simp
  have c: "c = CHR ''r'' \<or> c = CHR ''n''"
    using Cons.prems e by simp
  then show ?case
  proof
    assume "c = CHR ''r''"
    then have "option_loop pf (e # opts) g = option_loop pf opts (g\<lparr>take_into_account_cpus := True\<rparr>)"
      by (simp add: e)
    then show ?thesis
      using Cons.IH [OF rest, of "g\<lparr>take_into_account_cpus := True\<rparr>"] by simp
  next
    assume "c = CHR ''n''"
    then have "option_loop pf (e # opts) g = option_loop pf opts (g\<lparr>n_procs_to_show := atoi pf a\<rparr>)"
      by (simp add: e)
    then show ?thesis
      using Cons.IH [OF rest, of "g\<lparr>n_procs_to_show := atoi pf a\<rparr>"] by simp
  qed
qed

lemma nth3_zero: "nth3 (0, 0, 0) i = 0"
  by (simp add: nth3_def)

lemma zero_thresholds_critical:
  assumes "cload g = (0, 0, 0)" and "\<forall>i<3. 0 < nth3 la i"
  shows "load_status g w la = STATE_CRITICAL"
proof -
  have "0 < nth3 la 0"
    using assms(2) by simp
  moreover have "nth3 (comparison_sample g w la) 0 = nth3 la 0
                 \<or> (0 < number_of_cpus w
                    \<and> nth3 (comparison_sample g w la) 0 = nth3 la 0 / real_of_int (number_of_cpus w))"
    by (auto simp add: comparison_sample_eq nth3_def)
  ultimately have "nth3 (cload g) 0 < nth3 (comparison_sample g w la) 0"
    using assms(1) by (auto simp add: nth3_zero)
  then have "\<exists>i<3. nth3 (cload g) i < nth3 (comparison_sample g w la) i"
    by (intro exI [of _ 0]) simp
  then show ?thesis
    by (simp add: load_status_worst)
qed

lemma defaults_accepted:
  assumes "wload g = (0, 0, 0)" and "cload g = (0, 0, 0)"
  shows "validate_arguments g = Returns OK"
  using assms by (simp add: validate_arguments_ok acceptable_def nth3_zero)

text \<open>
  C10. Both threshold triplets start as (0, 0, 0), and validation accepts them. A run
  with at least one argument whose options are only \<^verbatim>\<open>-r\<close> and \<^verbatim>\<open>-n\<close> (the options
  that neither set a threshold nor end the run), with or without further words on the
  command line, passes validation with both triplets still zero; then every load sample
  with three strictly positive values gives the exit code CRITICAL, in scaled mode too.
\<close>

theorem default_thresholds_critical:
  "wload initial_globals = (0, 0, 0) \<and> cload initial_globals = (0, 0, 0)
   \<and> validate_arguments initial_globals = Returns OK
   \<and> (2 \<le> length argv \<and> getopt_long pf optstring longopts argv = (opts, optind, argv1)
        \<and> optind \<le> length argv
        \<and> list_all (\<lambda>e. fst e = CHR ''r'' \<or> fst e = CHR ''n'') opts \<longrightarrow>
        (\<exists>g. process_arguments pf argv initial_globals = Returns (OK, g)
              \<and> wload g = (0, 0, 0) \<and> cload g = (0, 0, 0))
        \<and> (retrieve_load pf w = Returns (ev, la) \<and> (\<forall>i<3. 0 < nth3 la i) \<longrightarrow>
             exit_code (main pf w argv) = Some STATE_CRITICAL))"
proof -
  have d: "wload initial_globals = (0, 0, 0)" "cload initial_globals = (0, 0, 0)"
    by (simp_all add: initial_globals_def)
  have v: "validate_arguments initial_globals = Returns OK"
    using d by (rule defaults_accepted)
  have run: "(\<exists>g. process_arguments pf argv initial_globals = Returns (OK, g)
              \<and> wload g = (0, 0, 0) \<and> cload g = (0, 0, 0))
        \<and> (retrieve_load pf w = Returns (ev, la) \<and> (\<forall>i<3. 0 < nth3 la i) \<longrightarrow>
             exit_code (main pf w argv) = Some STATE_CRITICAL)"
    if h: "2 \<le> length argv \<and> getopt_long pf optstring longopts argv = (opts, optind, argv1)
        \<and> optind \<le> length argv
        \<and> list_all (\<lambda>e. fst e = CHR ''r'' \<or> fst e = CHR ''n'') opts"
  proof -
    obtain g where g: "option_loop pf opts initial_globals = Returns g"
      "wload g = (0, 0, 0)" "cload g = (0, 0, 0)"
      using h option_loop_keeps_thresholds [of opts pf initial_globals] d by auto
    have "process_arguments pf argv initial_globals =
            bind_outcome (option_loop pf opts initial_globals)
              (\<lambda>g1. bind_outcome (validate_arguments g1) (\<lambda>r. Returns (r, g1)))"
      using h by (intro process_arguments_validates) auto
    then have pa: "process_arguments pf argv initial_globals = Returns (OK, g)"
      using g defaults_accepted [of g] by simp
    have ok: "OK \<noteq> ERROR"
      by (simp add: OK_def ERROR_def)
    have "exit_code (main pf w argv) = Some STATE_CRITICAL"
      if r: "retrieve_load pf w = Returns (ev, la) \<and> (\<forall>i<3. 0 < nth3 la i)"
    proof -
      have "\<forall>i<3. 0 \<le> nth3 la i"
        using r by (simp add: less_imp_le)
      then have "exit_code (main pf w argv) = Some (load_status g w la)"
        using pa ok r main_exit_code by blast
      then show ?thesis
        using zero_thresholds_critical [of g la w] g r by simp
    qed
    then show ?thesis
      using pa g by blast
  qed
  show ?thesis
    using d v run by blast
qed


theorem default_thresholds_critical_witness:
  "(\<exists>g. process_arguments posix_platform [''check_load'', ''-r'', ''-n'', ''2''] initial_globals
          = Returns (OK, g) \<and> wload g = (0, 0, 0) \<and> cload g = (0, 0, 0))
   \<and> exit_code (main posix_platform (sample_world (1 / 10, 2 / 10, 3 / 10) 4 sample_ps)
                  [''check_load'', ''-r'', ''-n'', ''2'']) = Some STATE_CRITICAL"
proof -
  let ?argv = "[''check_load'', ''-r'', ''-n'', ''2'']"
  let ?la = "(1 / 10, 2 / 10, 3 / 10) :: triplet"
  let ?w = "sample_world ?la 4 sample_ps"
  have go: "getopt_long posix_platform optstring longopts ?argv
            = ([(CHR ''r'', []), (CHR ''n'', ''2'')], 4, ?argv)"
    by code_simp
  have h: "2 \<le> length ?argv
           \<and> getopt_long posix_platform optstring longopts ?argv
               = ([(CHR ''r'', []), (CHR ''n'', ''2'')], 4, ?argv)
           \<and> 4 \<le> length ?argv
           \<and> list_all (\<lambda>e. fst e = CHR ''r'' \<or> fst e = CHR ''n'') [(CHR ''r'', []), (CHR ''n'', ''2'')]"
    using go by simp
  have r: "retrieve_load posix_platform ?w = Returns ([Call_getloadavg], ?la)
           \<and> (\<forall>i<3. 0 < nth3 ?la i)"
    by (simp add: retrieve_load_def posix_platform_def sample_world_def all_below_3 nth3_def)
  show ?thesis
    using default_thresholds_critical
      [where argv = ?argv and pf = posix_platform and opts = "[(CHR ''r'', []), (CHR ''n'', ''2'')]"
         and optind = 4 and ?argv1.0 = ?argv and w = ?w and ev = "[Call_getloadavg]" and la = ?la]
      h r
    by blast
qed

lemma validate_arguments_rejects:
  assumes "\<exists>i<3. nth3 (wload g) i > nth3 (cload g) i \<or> nth3 (wload g) i < 0 \<or> nth3 (cload g) i < 0"
  shows "\<exists>msg k. validate_arguments g = Exits STATE_UNKNOWN [Die msg k]"
proof -
  have "\<not> (\<forall>i<3. acceptable g i)"
    using assms by (auto simp add: acceptable_def)
  then have "validate_arguments g \<noteq> Returns OK"
    by (simp add: validate_arguments_ok)
  then show ?thesis
    using validate_arguments_cases [of g] by blast
qed

lemma main_rejected_thresholds:
  assumes "2 \<le> length argv"
    and "getopt_long pf optstring longopts argv = (opts, optind, argv1)"
    and "optind \<le> length argv"
    and "option_loop pf opts initial_globals = Returns g"
    and "validate_arguments g = Exits STATE_UNKNOWN [Die msg k]"
  shows "main pf w argv = Exits STATE_UNKNOWN [Die msg k]"
proof -
  have "process_arguments pf argv initial_globals =
          bind_outcome (option_loop pf opts initial_globals)
            (\<lambda>g1. bind_outcome (validate_arguments g1) (\<lambda>r. Returns (r, g1)))"
    using assms(1-3) by (rule process_arguments_validates)
  then have "process_arguments pf argv initial_globals = Exits STATE_UNKNOWN [Die msg k]"
    using assms(4,5) by simp
  then show ?thesis
    by (simp add: main_def)
qed

text \<open>
  C4. Validation is meant to end the run with UNKNOWN, before the load is retrieved,
  also when a threshold triplet is not given at all: \<^verbatim>\<open>validate_arguments\<close> has the
  diagnostics ``Critical threshold ... is not specified'' and ``Warning threshold ... is
  not specified'', its comment speaks of the user who has not given \<^verbatim>\<open>-c\<close>, and the
  usage line lists \<^verbatim>\<open>-w\<close> and \<^verbatim>\<open>-c\<close> as mandatory. The two tests are
  \<^verbatim>\<open>cload[i] < 0\<close> and \<^verbatim>\<open>wload[i] < 0\<close>, but the arrays start at 0.0, so a
  triplet that was never given is not seen as missing. With only \<^verbatim>\<open>-c 2\<close> (no
  warning triplet) the run retrieves the load and exits with WARNING; with only
  \<^verbatim>\<open>-r\<close> (no triplet at all) it retrieves the load and exits with CRITICAL. With
  only \<^verbatim>\<open>-w 5\<close> the missing critical triplet is reported as an inconsistency of the
  two thresholds, and the diagnostic for a missing threshold appears only for a negative
  value such as \<^verbatim>\<open>-c -1\<close>.
\<close>

theorem unspecified_thresholds_accepted:
  "exit_code (main posix_platform (sample_world (1, 1, 1) 1 []) [''check_load'', ''-c'', ''2''])
     = Some STATE_WARNING
   \<and> list_ex is_load_retrieval
        (events (main posix_platform (sample_world (1, 1, 1) 1 []) [''check_load'', ''-c'', ''2'']))
   \<and> exit_code (main posix_platform (sample_world (1, 1, 1) 1 []) [''check_load'', ''-r''])
     = Some STATE_CRITICAL
   \<and> list_ex is_load_retrieval
        (events (main posix_platform (sample_world (1, 1, 1) 1 []) [''check_load'', ''-r'']))
   \<and> main posix_platform (sample_world (1, 1, 1) 1 []) [''check_load'', ''-w'', ''5'']
     = Exits STATE_UNKNOWN
         [Die ''Parameter inconsistency: %d-minute warning load is greater than critical load'' 1]
   \<and> main posix_platform (sample_world (1, 1, 1) 1 []) [''check_load'', ''-c'', ''-1'']
     = Exits STATE_UNKNOWN
         [Die ''Critical threshold for %d-minute load average is not specified'' 1]
   \<and> STATE_WARNING \<noteq> STATE_UNKNOWN \<and> STATE_CRITICAL \<noteq> STATE_UNKNOWN"
proof -
  have "exit_code (main posix_platform (sample_world (1, 1, 1) 1 []) [''check_load'', ''-c'', ''2''])
     = Some STATE_WARNING"
    by code_simp
  moreover have "list_ex is_load_retrieval
        (events (main posix_platform (sample_world (1, 1, 1) 1 []) [''check_load'', ''-c'', ''2'']))"
    by code_simp
  moreover have "exit_code (main posix_platform (sample_world (1, 1, 1) 1 []) [''check_load'', ''-r''])
     = Some STATE_CRITICAL"
    by code_simp
  moreover have "list_ex is_load_retrieval
        (events (main posix_platform (sample_world (1, 1, 1) 1 []) [''check_load'', ''-r'']))"
    by code_simp
  moreover have "main posix_platform (sample_world (1, 1, 1) 1 []) [''check_load'', ''-w'', ''5'']
     = Exits STATE_UNKNOWN
         [Die ''Parameter inconsistency: %d-minute warning load is greater than critical load'' 1]"
    by code_simp
  moreover have "main posix_platform (sample_world (1, 1, 1) 1 []) [''check_load'', ''-c'', ''-1'']
     = Exits STATE_UNKNOWN
         [Die ''Critical threshold for %d-minute load average is not specified'' 1]"
    by code_simp
  moreover have "STATE_WARNING \<noteq> STATE_UNKNOWN \<and> STATE_CRITICAL \<noteq> STATE_UNKNOWN"
    by (simp add: STATE_WARNING_def STATE_CRITICAL_def STATE_UNKNOWN_def)
  ultimately show ?thesis
    by blast
qed

end
